theory Spec2Isabelle
  imports Complex_Main "HOL-Library.AList"
begin

section \<open>Data model of \<open>solver/factorio_solver.py\<close>\<close>

text \<open>
  The script reads a static game dataset (\<open>FACTORIO_DATA\<close>, a JSON document that is not
  part of the script), parses command-line tokens and assembles one configuration dict
  that is handed to the linear solver. Python exceptions are values of \<open>py_error\<close>;
  a function that can raise returns \<open>py_error + 'a\<close> with \<open>Inl\<close> for the exception.

  Costs, amounts and productivity levels are Python floats. The type of floats is the
  type parameter \<open>'c\<close>, and the builtin \<open>float(str)\<close> is the parameter
  \<open>flt :: string \<Rightarrow> 'c option\<close> of every function that calls it
  (\<open>None\<close>: \<open>float\<close> raises \<open>ValueError\<close>). Every general theorem below holds for
  all such \<open>flt\<close>.
\<close>

datatype py_error = ValueError | KeyError | IndexError

text \<open>The input dict \<open>{'key', 'quality', 'resource', 'cost'}\<close> built by the three producers.\<close>

record 'c input_spec =
  key :: string
  quality :: string
  resource :: bool
  cost :: 'c

text \<open>The single entry of \<open>config["outputs"]\<close>: keys \<open>key\<close>, \<open>quality\<close>, \<open>amount\<close>.\<close>

record 'c output_spec =
  out_key :: string
  out_quality :: string
  amount :: 'c

text \<open>
  The part of \<open>FACTORIO_DATA\<close> the script reads: \<open>planet['resources']\<close> with its lists
  \<open>'offshore'\<close>, \<open>'plants'\<close> and \<open>'resource'\<close>; \<open>FACTORIO_DATA['plants']\<close>, each plant
  with \<open>'key'\<close> and \<open>'results'\<close>; each result with \<open>'name'\<close>; \<open>FACTORIO_DATA['planets']\<close>.
\<close>

record planet_resources =
  res_offshore :: "string list"
  res_plants :: "string list"
  res_resource :: "string list"

record planet =
  resources :: planet_resources

record plant_result =
  result_name :: string

record plant =
  plant_key :: string
  results :: "plant_result list"

record game_data =
  data_planets :: "planet list"
  data_plants :: "plant list"

text \<open>The \<open>argparse\<close> namespace: one field per option read by \<open>main\<close>, named \<open>arg_\<close> + attribute.
  An option with \<open>default=None\<close> is an \<open>option\<close>.\<close>

record 'c args =
  arg_output_item :: string
  arg_output_amount :: 'c
  arg_output_quality :: string
  arg_prod_module_tier :: int
  arg_quality_module_tier :: int
  arg_check_speed_modules :: bool
  arg_speed_module_tier :: int
  arg_module_quality :: string
  arg_prod_module_quality :: "string option"
  arg_quality_module_quality :: "string option"
  arg_speed_module_quality :: "string option"
  arg_building_quality :: string
  arg_max_quality_unlocked :: string
  arg_input_items :: "string list option"
  arg_input_quality :: string
  arg_input_resources :: "string list option"
  arg_productivity_research :: "string list option"
  arg_allow_byproducts :: bool
  arg_allowed_recipes :: "string list option"
  arg_disallowed_recipes :: "string list option"
  arg_allowed_crafting_machines :: "string list option"
  arg_disallowed_crafting_machines :: "string list option"
  arg_resource_cost :: 'c
  arg_farming_cost :: 'c
  arg_offshore_cost :: 'c
  arg_module_cost :: 'c
  arg_building_cost :: 'c

text \<open>The \<open>config\<close> dict of \<open>main\<close>, one field per key. The dict \<open>productivity_research\<close>
  is an association list in insertion order, as a Python dict is.\<close>

record 'c config =
  quality_module_tier :: int
  quality_module_quality :: string
  prod_module_tier :: int
  prod_module_quality :: string
  check_speed_modules :: bool
  speed_module_tier :: int
  speed_module_quality :: string
  building_quality :: string
  max_quality_unlocked :: string
  productivity_research :: "(string \<times> 'c) list"
  allow_byproducts :: bool
  module_cost :: 'c
  building_cost :: 'c
  allowed_recipes :: "string list option"
  disallowed_recipes :: "string list option"
  allowed_crafting_machines :: "string list option"
  disallowed_crafting_machines :: "string list option"
  inputs :: "'c input_spec list"
  outputs :: "'c output_spec list"

section \<open>Builtins used by the script\<close>

text \<open>\<open>s.split(sep)\<close> for a one-character separator: splits at every occurrence, so a
  string with \<open>n\<close> separators gives \<open>n + 1\<close> parts. \<open>cur\<close> is the part being read.\<close>

fun split_from :: "char \<Rightarrow> string \<Rightarrow> string \<Rightarrow> string list" where
  "split_from sep cur [] = [cur]"
| "split_from sep cur (c # cs) =
     (if c = sep then cur # split_from sep [] cs else split_from sep (cur @ [c]) cs)"

definition str_split :: "char \<Rightarrow> string \<Rightarrow> string list" where
  "str_split sep s = split_from sep [] s"

text \<open>The tuple assignment \<open>a, b = xs\<close>: \<open>ValueError\<close> unless \<open>xs\<close> has exactly two elements.\<close>

fun unpack2 :: "'a list \<Rightarrow> py_error + 'a \<times> 'a" where
  "unpack2 [a, b] = Inr (a, b)"
| "unpack2 xs = Inl ValueError"

text \<open>\<open>x or y\<close> on an optional string: \<open>None\<close> and the empty string are falsy.\<close>

fun py_or :: "string option \<Rightarrow> string \<Rightarrow> string" where
  "py_or None d = d"
| "py_or (Some s) d = (if s = [] then d else s)"

text \<open>\<open>xs if xs else None\<close> on an optional list: \<open>None\<close> and the empty list are falsy.\<close>

fun if_truthy :: "'a list option \<Rightarrow> 'a list option" where
  "if_truthy None = None"
| "if_truthy (Some xs) = (if xs = [] then None else Some xs)"

section \<open>\<open>setup_inputs\<close>\<close>

definition offshore_input :: "'c \<Rightarrow> string \<Rightarrow> 'c input_spec" where
  "offshore_input offshore_cost offshore_key =
     \<lparr>key = offshore_key, quality = ''normal'', resource = False, cost = offshore_cost\<rparr>"

definition farming_input :: "'c \<Rightarrow> plant_result \<Rightarrow> 'c input_spec" where
  "farming_input farming_cost result =
     \<lparr>key = result_name result, quality = ''normal'', resource = False, cost = farming_cost\<rparr>"

definition resource_input :: "'c \<Rightarrow> string \<Rightarrow> 'c input_spec" where
  "resource_input resource_cost resource_key =
     \<lparr>key = resource_key, quality = ''normal'', resource = True, cost = resource_cost\<rparr>"

text \<open>The loop over \<open>planet['resources']['plants']\<close>. The list comprehension keeps the plants
  of the dataset with the wanted key and \<open>[0]\<close> takes the first: \<open>IndexError\<close> when there is none.\<close>

fun plants_loop ::
  "game_data \<Rightarrow> 'c \<Rightarrow> string list \<Rightarrow> 'c input_spec list \<Rightarrow> py_error + 'c input_spec list" where
  "plants_loop d farming_cost [] inps = Inr inps"
| "plants_loop d farming_cost (plant # rest) inps =
     (case filter (\<lambda>p. plant_key p = plant) (data_plants d) of
        [] \<Rightarrow> Inl IndexError
      | plant_info # _ \<Rightarrow>
          plants_loop d farming_cost rest (inps @ map (farming_input farming_cost) (results plant_info)))"

text \<open>The loop over \<open>FACTORIO_DATA['planets']\<close>; \<open>inps\<close> is the list \<open>inputs\<close> appended to.\<close>

fun planets_loop ::
  "game_data \<Rightarrow> 'c \<Rightarrow> 'c \<Rightarrow> 'c \<Rightarrow> planet list \<Rightarrow> 'c input_spec list \<Rightarrow> py_error + 'c input_spec list" where
  "planets_loop d resource_cost farming_cost offshore_cost [] inps = Inr inps"
| "planets_loop d resource_cost farming_cost offshore_cost (planet # rest) inps =
     (case plants_loop d farming_cost (res_plants (resources planet))
             (inps @ map (offshore_input offshore_cost) (res_offshore (resources planet))) of
        Inl e \<Rightarrow> Inl e
      | Inr inps' \<Rightarrow>
          planets_loop d resource_cost farming_cost offshore_cost rest
            (inps' @ map (resource_input resource_cost) (res_resource (resources planet))))"

definition setup_inputs :: "game_data \<Rightarrow> 'c \<Rightarrow> 'c \<Rightarrow> 'c \<Rightarrow> py_error + 'c input_spec list" where
  "setup_inputs d resource_cost farming_cost offshore_cost =
     planets_loop d resource_cost farming_cost offshore_cost (data_planets d) []"

section \<open>\<open>parse_input_list\<close> and \<open>parse_resources_list\<close>\<close>

fun input_list_loop ::
  "(string \<Rightarrow> 'c option) \<Rightarrow> string list \<Rightarrow> string \<Rightarrow> 'c input_spec list \<Rightarrow> py_error + 'c input_spec list" where
  "input_list_loop flt [] input_quality inps = Inr inps"
| "input_list_loop flt (item # items) input_quality inps =
     (case unpack2 (str_split (CHR ''='') item) of
        Inl e \<Rightarrow> Inl e
      | Inr (item_key, item_cost_str) \<Rightarrow>
          (case flt item_cost_str of
             None \<Rightarrow> Inl ValueError
           | Some item_cost \<Rightarrow>
               input_list_loop flt items input_quality
                 (inps @ [\<lparr>key = item_key, quality = input_quality, resource = False, cost = item_cost\<rparr>])))"

definition parse_input_list ::
  "(string \<Rightarrow> 'c option) \<Rightarrow> string list \<Rightarrow> string \<Rightarrow> py_error + 'c input_spec list" where
  "parse_input_list flt items input_quality = input_list_loop flt items input_quality []"

fun resources_list_loop ::
  "(string \<Rightarrow> 'c option) \<Rightarrow> string list \<Rightarrow> 'c input_spec list \<Rightarrow> py_error + 'c input_spec list" where
  "resources_list_loop flt [] inps = Inr inps"
| "resources_list_loop flt (item # items) inps =
     (case unpack2 (str_split (CHR ''='') item) of
        Inl e \<Rightarrow> Inl e
      | Inr (item_key, item_cost_str) \<Rightarrow>
          (case flt item_cost_str of
             None \<Rightarrow> Inl ValueError
           | Some item_cost \<Rightarrow>
               resources_list_loop flt items
                 (inps @ [\<lparr>key = item_key, quality = ''normal'', resource = True, cost = item_cost\<rparr>])))"

definition parse_resources_list ::
  "(string \<Rightarrow> 'c option) \<Rightarrow> string list \<Rightarrow> py_error + 'c input_spec list" where
  "parse_resources_list flt items = resources_list_loop flt items []"

section \<open>\<open>parse_productivity_research_list\<close>\<close>

definition RESEARCH_PRODUCTIVITY_ITEM_RECIPE_MAP :: "(string \<times> string list) list" where
  "RESEARCH_PRODUCTIVITY_ITEM_RECIPE_MAP =
     [(''steel-plate'', [''steel-plate'', ''casting-steel'']),
      (''low-density-structure'', [''low-density-structure'', ''casting-low-density-structure'']),
      (''scrap'', [''scrap-recycling'']),
      (''processing-unit'', [''processing-unit'']),
      (''plastic-bar'', [''plastic-bar'']),
      (''rocket-fuel'', [''rocket-fuel'', ''rocket-fuel-from-jelly'', ''ammonia-rocket-fuel'']),
      (''asteroid'', [''carbonic-asteroid-crushing'', ''metallic-asteroid-crushing'',
                      ''oxide-asteroid-crushing'', ''advanced-carbonic-asteroid-crushing'',
                      ''advanced-metallic-asteroid-crushing'', ''advanced-oxide-asteroid-crushing''])]"

text \<open>The inner loop: \<open>float(item_prod_str)\<close> is called once per recipe key, then the dict
  entry is assigned (\<open>AList.update\<close>: replace the value in place, or append a new key).\<close>

fun recipe_keys_loop ::
  "(string \<Rightarrow> 'c option) \<Rightarrow> string \<Rightarrow> string list \<Rightarrow> (string \<times> 'c) list \<Rightarrow> py_error + (string \<times> 'c) list" where
  "recipe_keys_loop flt item_prod_str [] pr = Inr pr"
| "recipe_keys_loop flt item_prod_str (recipe_key # rest) pr =
     (case flt item_prod_str of
        None \<Rightarrow> Inl ValueError
      | Some item_prod \<Rightarrow>
          recipe_keys_loop flt item_prod_str rest (AList.update recipe_key item_prod pr))"

fun research_loop ::
  "(string \<Rightarrow> 'c option) \<Rightarrow> string list \<Rightarrow> (string \<times> 'c) list \<Rightarrow> py_error + (string \<times> 'c) list" where
  "research_loop flt [] pr = Inr pr"
| "research_loop flt (item # items) pr =
     (case unpack2 (str_split (CHR ''='') item) of
        Inl e \<Rightarrow> Inl e
      | Inr (item_key, item_prod_str) \<Rightarrow>
          (case map_of RESEARCH_PRODUCTIVITY_ITEM_RECIPE_MAP item_key of
             None \<Rightarrow> Inl KeyError
           | Some recipe_keys \<Rightarrow>
               (case recipe_keys_loop flt item_prod_str recipe_keys pr of
                  Inl e \<Rightarrow> Inl e
                | Inr pr' \<Rightarrow> research_loop flt items pr')))"

definition parse_productivity_research_list ::
  "(string \<Rightarrow> 'c option) \<Rightarrow> string list \<Rightarrow> py_error + (string \<times> 'c) list" where
  "parse_productivity_research_list flt items = research_loop flt items []"

section \<open>\<open>main\<close>\<close>

text \<open>Lines 161 to 170 of \<open>main\<close>: the choice of the input list.\<close>

definition main_inputs ::
  "(string \<Rightarrow> 'c option) \<Rightarrow> game_data \<Rightarrow> 'c args \<Rightarrow> py_error + 'c input_spec list" where
  "main_inputs flt d a =
     (if arg_input_items a = None \<and> arg_input_resources a = None
      then setup_inputs d (arg_resource_cost a) (arg_farming_cost a) (arg_offshore_cost a)
      else
        (case (case arg_input_items a of
                 None \<Rightarrow> Inr []
               | Some items \<Rightarrow>
                   (case parse_input_list flt items (arg_input_quality a) of
                      Inl e \<Rightarrow> Inl e
                    | Inr input_items \<Rightarrow> Inr ([] @ input_items))) of
           Inl e \<Rightarrow> Inl e
         | Inr inps \<Rightarrow>
             (case arg_input_resources a of
                None \<Rightarrow> Inr inps
              | Some items \<Rightarrow>
                  (case parse_resources_list flt items of
                     Inl e \<Rightarrow> Inl e
                   | Inr input_resources \<Rightarrow> Inr (inps @ input_resources)))))"

text \<open>Line 172: the research list is parsed only when it is truthy (neither \<open>None\<close> nor empty).\<close>

definition main_productivity_research ::
  "(string \<Rightarrow> 'c option) \<Rightarrow> 'c args \<Rightarrow> py_error + (string \<times> 'c) list" where
  "main_productivity_research flt a =
     (case arg_productivity_research a of
        None \<Rightarrow> Inr []
      | Some items \<Rightarrow> (if items = [] then Inr [] else parse_productivity_research_list flt items))"

text \<open>\<open>main\<close> up to the call of the solver: the result is the \<open>config\<close> passed to
  \<open>run_solver_from_command_line\<close>, or the exception raised before that call.\<close>

definition main :: "(string \<Rightarrow> 'c option) \<Rightarrow> game_data \<Rightarrow> 'c args \<Rightarrow> py_error + 'c config" where
  "main flt d a =
     (case main_inputs flt d a of
        Inl e \<Rightarrow> Inl e
      | Inr inps \<Rightarrow>
          (case main_productivity_research flt a of
             Inl e \<Rightarrow> Inl e
           | Inr pr \<Rightarrow>
               Inr \<lparr>quality_module_tier = arg_quality_module_tier a,
                    quality_module_quality = py_or (arg_quality_module_quality a) (arg_module_quality a),
                    prod_module_tier = arg_prod_module_tier a,
                    prod_module_quality = py_or (arg_prod_module_quality a) (arg_module_quality a),
                    check_speed_modules = arg_check_speed_modules a,
                    speed_module_tier = arg_speed_module_tier a,
                    speed_module_quality = py_or (arg_speed_module_quality a) (arg_module_quality a),
                    building_quality = arg_building_quality a,
                    max_quality_unlocked = arg_max_quality_unlocked a,
                    productivity_research = pr,
                    allow_byproducts = arg_allow_byproducts a,
                    module_cost = arg_module_cost a,
                    building_cost = arg_building_cost a,
                    allowed_recipes = if_truthy (arg_allowed_recipes a),
                    disallowed_recipes = if_truthy (arg_disallowed_recipes a),
                    allowed_crafting_machines = if_truthy (arg_allowed_crafting_machines a),
                    disallowed_crafting_machines = if_truthy (arg_disallowed_crafting_machines a),
                    inputs = inps,
                    outputs = [\<lparr>out_key = arg_output_item a,
                                out_quality = arg_output_quality a,
                                amount = arg_output_amount a\<rparr>]\<rparr>))"

section \<open>Notions used to state the properties\<close>

text \<open>
  The wording of the specification for one token \<open>key=cost\<close>: the token is split at its
  first \<open>=\<close>; the key is what precedes it, the cost segment is what follows it.
\<close>

definition key_segment :: "string \<Rightarrow> string" where
  "key_segment t = takeWhile (\<lambda>c. c \<noteq> CHR ''='') t"

definition cost_segment :: "string \<Rightarrow> string" where
  "cost_segment t = tl (dropWhile (\<lambda>c. c \<noteq> CHR ''='') t)"

text \<open>A well-formed token: exactly one separator, and a cost segment that \<open>float\<close> accepts.\<close>

definition token_ok :: "(string \<Rightarrow> 'c option) \<Rightarrow> string \<Rightarrow> bool" where
  "token_ok flt t \<longleftrightarrow> count_list t (CHR ''='') = 1 \<and> flt (cost_segment t) \<noteq> None"

text \<open>The entry the specification gives for a well-formed token, item and resource variant.\<close>

definition item_entry :: "(string \<Rightarrow> 'c option) \<Rightarrow> string \<Rightarrow> string \<Rightarrow> 'c input_spec" where
  "item_entry flt q t =
     \<lparr>key = key_segment t, quality = q, resource = False, cost = the (flt (cost_segment t))\<rparr>"

definition resource_entry :: "(string \<Rightarrow> 'c option) \<Rightarrow> string \<Rightarrow> 'c input_spec" where
  "resource_entry flt t =
     \<lparr>key = key_segment t, quality = ''normal'', resource = True, cost = the (flt (cost_segment t))\<rparr>"

text \<open>The union of the manual lists supplied: item entries, then resource entries.\<close>

definition manual_entries ::
  "(string \<Rightarrow> 'c option) \<Rightarrow> string \<Rightarrow> string list option \<Rightarrow> string list option \<Rightarrow> 'c input_spec list" where
  "manual_entries flt q items ress =
     (case items of None \<Rightarrow> [] | Some ts \<Rightarrow> map (item_entry flt q) ts) @
     (case ress of None \<Rightarrow> [] | Some ts \<Rightarrow> map (resource_entry flt) ts)"

text \<open>The result-item list of a plant key: the results of the first plant of the dataset
  with that key.\<close>

definition lookup_results :: "game_data \<Rightarrow> string \<Rightarrow> plant_result list" where
  "lookup_results d k =
     (case find (\<lambda>p. plant_key p = k) (data_plants d) of None \<Rightarrow> [] | Some p \<Rightarrow> results p)"

text \<open>A validated dataset: every plant key listed on a planet has a plant definition.\<close>

definition plants_defined :: "game_data \<Rightarrow> bool" where
  "plants_defined d \<longleftrightarrow>
     list_all (\<lambda>pl. list_all (\<lambda>k. k \<in> set (map plant_key (data_plants d))) (res_plants (resources pl)))
       (data_planets d)"

text \<open>What the specification lists for one planet: the offshore entries, then the results
  of each harvestable plant, then the minable resource entries.\<close>

definition planet_block :: "game_data \<Rightarrow> 'c \<Rightarrow> 'c \<Rightarrow> 'c \<Rightarrow> planet \<Rightarrow> 'c input_spec list" where
  "planet_block d rc fc oc pl =
     map (\<lambda>k. \<lparr>key = k, quality = ''normal'', resource = False, cost = oc\<rparr>)
       (res_offshore (resources pl)) @
     concat (map (\<lambda>p. map (\<lambda>r. \<lparr>key = result_name r, quality = ''normal'', resource = False, cost = fc\<rparr>)
                          (lookup_results d p))
               (res_plants (resources pl))) @
     map (\<lambda>k. \<lparr>key = k, quality = ''normal'', resource = True, cost = rc\<rparr>)
       (res_resource (resources pl))"

text \<open>The number of plant-result entries of a planet, counted with repetitions.\<close>

definition plant_result_count :: "game_data \<Rightarrow> planet \<Rightarrow> nat" where
  "plant_result_count d pl = (\<Sum>p\<leftarrow>res_plants (resources pl). length (lookup_results d p))"

text \<open>
  The length formula in the wording of the specification, with the count of distinct
  plant results: read per planet (distinct result items among all plants of the planet)
  and read per plant (distinct result items of each plant, summed).
\<close>

definition spec_length_distinct_per_planet :: "game_data \<Rightarrow> nat" where
  "spec_length_distinct_per_planet d =
     (\<Sum>pl\<leftarrow>data_planets d.
        length (res_offshore (resources pl)) +
        length (remdups (concat (map (\<lambda>p. map result_name (lookup_results d p)) (res_plants (resources pl))))) +
        length (res_resource (resources pl)))"

definition spec_length_distinct_per_plant :: "game_data \<Rightarrow> nat" where
  "spec_length_distinct_per_plant d =
     (\<Sum>pl\<leftarrow>data_planets d.
        length (res_offshore (resources pl)) +
        (\<Sum>p\<leftarrow>res_plants (resources pl). length (remdups (map result_name (lookup_results d p)))) +
        length (res_resource (resources pl)))"

text \<open>The recipe keys a research token stands for (none when its key is not in the table),
  and a well-formed research token: one separator, a known key, a level \<open>float\<close> accepts.\<close>

definition token_recipes :: "string \<Rightarrow> string list" where
  "token_recipes t =
     (case map_of RESEARCH_PRODUCTIVITY_ITEM_RECIPE_MAP (key_segment t) of None \<Rightarrow> [] | Some rks \<Rightarrow> rks)"

definition research_token_ok :: "(string \<Rightarrow> 'c option) \<Rightarrow> string \<Rightarrow> bool" where
  "research_token_ok flt t \<longleftrightarrow>
     count_list t (CHR ''='') = 1 \<and>
     map_of RESEARCH_PRODUCTIVITY_ITEM_RECIPE_MAP (key_segment t) \<noteq> None \<and>
     flt (cost_segment t) \<noteq> None"

section \<open>Concrete inputs\<close>

text \<open>
  An instance of \<open>float\<close> for evaluating the functions on concrete tokens: plain decimal
  literals \<open>digits\<close>, \<open>digits.digits\<close>, \<open>digits.\<close> and \<open>.digits\<close>, read as the real number
  they denote; every other string is rejected. On the literals used below (\<open>1.0\<close>,
  \<open>2.5\<close>, \<open>0.5\<close>, all exactly representable in binary floating point) and on the
  non-numeric strings used below it agrees with Python's \<open>float\<close>.
\<close>

definition digit_of :: "char \<Rightarrow> nat option" where
  "digit_of c =
     map_of [(CHR ''0'', 0), (CHR ''1'', 1), (CHR ''2'', 2), (CHR ''3'', 3), (CHR ''4'', 4),
             (CHR ''5'', 5), (CHR ''6'', 6), (CHR ''7'', 7), (CHR ''8'', 8), (CHR ''9'', 9)] c"

fun digits_value :: "nat \<Rightarrow> string \<Rightarrow> nat option" where
  "digits_value acc [] = Some acc"
| "digits_value acc (c # cs) =
     (case digit_of c of None \<Rightarrow> None | Some dgt \<Rightarrow> digits_value (10 * acc + dgt) cs)"

definition dec_float :: "string \<Rightarrow> real option" where
  "dec_float s =
     (let ip = takeWhile (\<lambda>c. c \<noteq> CHR ''.'') s;
          fp = tl (dropWhile (\<lambda>c. c \<noteq> CHR ''.'') s)
      in if ip = [] \<and> fp = [] then None
         else (case (digits_value 0 ip, digits_value 0 fp) of
                 (Some a, Some b) \<Rightarrow> Some (real a + real b / 10 ^ length fp)
               | _ \<Rightarrow> None))"

text \<open>A small dataset of two planets, and the defaults of the command line (the default
  offshore cost \<open>0.1\<close> is written \<open>1 / 10\<close>; no statement below compares it with a parsed cost).\<close>

definition example_data :: game_data where
  "example_data =
     \<lparr>data_planets =
        [\<lparr>resources = \<lparr>res_offshore = [''water''], res_plants = [''tree-plant''],
                        res_resource = [''iron-ore'', ''coal'']\<rparr>\<rparr>,
         \<lparr>resources = \<lparr>res_offshore = [''water''], res_plants = [''yumako-tree'', ''jellystem''],
                        res_resource = [''stone'']\<rparr>\<rparr>],
      data_plants =
        [\<lparr>plant_key = ''tree-plant'', results = [\<lparr>result_name = ''wood''\<rparr>]\<rparr>,
         \<lparr>plant_key = ''yumako-tree'', results = [\<lparr>result_name = ''yumako''\<rparr>]\<rparr>,
         \<lparr>plant_key = ''jellystem'', results = [\<lparr>result_name = ''jellynut''\<rparr>]\<rparr>]\<rparr>"

text \<open>A dataset in which two plants of one planet give the same item, one of them twice.\<close>

definition shared_result_data :: game_data where
  "shared_result_data =
     \<lparr>data_planets =
        [\<lparr>resources = \<lparr>res_offshore = [], res_plants = [''tree-plant'', ''dead-tree''],
                        res_resource = []\<rparr>\<rparr>],
      data_plants =
        [\<lparr>plant_key = ''tree-plant'', results = [\<lparr>result_name = ''wood''\<rparr>, \<lparr>result_name = ''wood''\<rparr>]\<rparr>,
         \<lparr>plant_key = ''dead-tree'', results = [\<lparr>result_name = ''wood''\<rparr>]\<rparr>]\<rparr>"

definition default_args :: "real args" where
  "default_args =
     \<lparr>arg_output_item = ''electronic-circuit'',
      arg_output_amount = 1,
      arg_output_quality = ''legendary'',
      arg_prod_module_tier = 3,
      arg_quality_module_tier = 3,
      arg_check_speed_modules = False,
      arg_speed_module_tier = 3,
      arg_module_quality = ''legendary'',
      arg_prod_module_quality = None,
      arg_quality_module_quality = None,
      arg_speed_module_quality = None,
      arg_building_quality = ''legendary'',
      arg_max_quality_unlocked = ''legendary'',
      arg_input_items = None,
      arg_input_quality = ''normal'',
      arg_input_resources = None,
      arg_productivity_research = None,
      arg_allow_byproducts = False,
      arg_allowed_recipes = None,
      arg_disallowed_recipes = None,
      arg_allowed_crafting_machines = None,
      arg_disallowed_crafting_machines = None,
      arg_resource_cost = 1,
      arg_farming_cost = 1,
      arg_offshore_cost = 1 / 10,
      arg_module_cost = 1,
      arg_building_cost = 1\<rparr>"

section \<open>The builtins\<close>

lemma length_split_from: "length (split_from sep cur s) = Suc (count_list s sep)"
  by (induction s arbitrary: cur) auto

lemma split_from_no_sep: "count_list s sep = 0 \<Longrightarrow> split_from sep cur s = [cur @ s]"
  by (induction s arbitrary: cur) (auto split: if_splits)

lemma split_from_one_sep:
  "count_list s sep = 1 \<Longrightarrow>
   split_from sep cur s = [cur @ takeWhile (\<lambda>c. c \<noteq> sep) s, tl (dropWhile (\<lambda>c. c \<noteq> sep) s)]"
  by (induction s arbitrary: cur) (auto split: if_splits simp: split_from_no_sep)

lemma unpack2_length: "length xs \<noteq> 2 \<Longrightarrow> unpack2 xs = Inl ValueError"
  by (cases xs rule: unpack2.cases) auto

text \<open>Splitting at every \<open>=\<close> and unpacking into two names succeeds exactly on the tokens with
  one separator, and then gives the two segments around the first \<open>=\<close>.\<close>

lemma unpack2_str_split:
  "unpack2 (str_split (CHR ''='') t) =
     (if count_list t (CHR ''='') = 1 then Inr (key_segment t, cost_segment t) else Inl ValueError)"
  by (auto simp: str_split_def split_from_one_sep key_segment_def cost_segment_def
      length_split_from unpack2_length)

lemma dec_float_values:
  "dec_float ''1.0'' = Some 1"
  "dec_float ''2.5'' = Some (5 / 2)"
  "dec_float ''0.5'' = Some (1 / 2)"
  "dec_float ''notanumber'' = None"
  by (simp_all add: dec_float_def digit_of_def)

section \<open>The manual input parsers\<close>

lemma input_list_loop_ok:
  "list_all (token_ok flt) items \<Longrightarrow>
   input_list_loop flt items q inps = Inr (inps @ map (item_entry flt q) items)"
  by (induction items arbitrary: inps)
     (auto simp: unpack2_str_split token_ok_def item_entry_def)

lemma input_list_loop_bad:
  "\<not> list_all (token_ok flt) items \<Longrightarrow> input_list_loop flt items q inps = Inl ValueError"
  by (induction items arbitrary: inps)
     (auto simp: unpack2_str_split token_ok_def split: option.splits)

lemma resources_list_loop_ok:
  "list_all (token_ok flt) items \<Longrightarrow>
   resources_list_loop flt items inps = Inr (inps @ map (resource_entry flt) items)"
  by (induction items arbitrary: inps)
     (auto simp: unpack2_str_split token_ok_def resource_entry_def)

lemma resources_list_loop_bad:
  "\<not> list_all (token_ok flt) items \<Longrightarrow> resources_list_loop flt items inps = Inl ValueError"
  by (induction items arbitrary: inps)
     (auto simp: unpack2_str_split token_ok_def split: option.splits)

lemma parse_input_list_eq:
  "parse_input_list flt items q =
     (if list_all (token_ok flt) items then Inr (map (item_entry flt q) items) else Inl ValueError)"
  by (simp add: parse_input_list_def input_list_loop_ok input_list_loop_bad)

lemma parse_resources_list_eq:
  "parse_resources_list flt items =
     (if list_all (token_ok flt) items then Inr (map (resource_entry flt) items) else Inl ValueError)"
  by (simp add: parse_resources_list_def resources_list_loop_ok resources_list_loop_bad)

section \<open>The default enumeration\<close>

lemma filter_Cons_find: "filter P xs = x # ys \<Longrightarrow> find P xs = Some x"
  by (induction xs) (auto split: if_splits)

lemma plants_loop_ok:
  "list_all (\<lambda>k. k \<in> set (map plant_key (data_plants d))) ks \<Longrightarrow>
   plants_loop d fc ks inps =
     Inr (inps @ concat (map (\<lambda>k. map (farming_input fc) (lookup_results d k)) ks))"
proof (induction ks arbitrary: inps)
  case Nil
  then show ?case by simp
next
  case (Cons k ks)
  from Cons.prems obtain p where p: "p \<in> set (data_plants d)" "plant_key p = k" by auto
  then have "filter (\<lambda>p. plant_key p = k) (data_plants d) \<noteq> []"
    by (auto simp: filter_empty_conv)
  then obtain q qs where q: "filter (\<lambda>p. plant_key p = k) (data_plants d) = q # qs"
    by (cases "filter (\<lambda>p. plant_key p = k) (data_plants d)") auto
  then have "lookup_results d k = results q"
    by (simp add: lookup_results_def filter_Cons_find)
  with q Cons show ?case by simp
qed

lemma plants_loop_bad:
  "\<not> list_all (\<lambda>k. k \<in> set (map plant_key (data_plants d))) ks \<Longrightarrow>
   plants_loop d fc ks inps = Inl IndexError"
proof (induction ks arbitrary: inps)
  case Nil
  then show ?case by simp
next
  case (Cons k ks)
  show ?case
  proof (cases "filter (\<lambda>p. plant_key p = k) (data_plants d)")
    case Nil
    then show ?thesis by simp
  next
    case (Cons q qs)
    then have "q \<in> set (filter (\<lambda>p. plant_key p = k) (data_plants d))" by simp
    then have "k \<in> set (map plant_key (data_plants d))" by auto
    with Cons.prems Cons.IH Cons show ?thesis by simp
  qed
qed

lemma planet_block_inputs:
  "planet_block d rc fc oc pl =
     map (offshore_input oc) (res_offshore (resources pl)) @
     concat (map (\<lambda>k. map (farming_input fc) (lookup_results d k)) (res_plants (resources pl))) @
     map (resource_input rc) (res_resource (resources pl))"
proof -
  have "farming_input fc = (\<lambda>r. \<lparr>key = result_name r, quality = ''normal'', resource = False, cost = fc\<rparr>)"
    by (rule ext) (simp add: farming_input_def)
  moreover have "offshore_input oc = (\<lambda>k. \<lparr>key = k, quality = ''normal'', resource = False, cost = oc\<rparr>)"
    by (rule ext) (simp add: offshore_input_def)
  moreover have "resource_input rc = (\<lambda>k. \<lparr>key = k, quality = ''normal'', resource = True, cost = rc\<rparr>)"
    by (rule ext) (simp add: resource_input_def)
  ultimately show ?thesis by (simp add: planet_block_def)
qed

lemma planets_loop_ok:
  "list_all (\<lambda>pl. list_all (\<lambda>k. k \<in> set (map plant_key (data_plants d))) (res_plants (resources pl))) pls \<Longrightarrow>
   planets_loop d rc fc oc pls inps = Inr (inps @ concat (map (planet_block d rc fc oc) pls))"
  by (induction pls arbitrary: inps) (auto simp: plants_loop_ok planet_block_inputs)

lemma planets_loop_bad:
  "\<not> list_all (\<lambda>pl. list_all (\<lambda>k. k \<in> set (map plant_key (data_plants d))) (res_plants (resources pl))) pls \<Longrightarrow>
   planets_loop d rc fc oc pls inps = Inl IndexError"
proof (induction pls arbitrary: inps)
  case Nil
  then show ?case by simp
next
  case (Cons pl pls)
  show ?case
  proof (cases "list_all (\<lambda>k. k \<in> set (map plant_key (data_plants d))) (res_plants (resources pl))")
    case True
    with Cons show ?thesis by (simp add: plants_loop_ok)
  next
    case False
    then show ?thesis by (simp add: plants_loop_bad)
  qed
qed

text \<open>The enumeration on any dataset: the blocks of the planets in order, or \<open>IndexError\<close>
  when some planet lists a plant key that has no plant definition.\<close>

lemma setup_inputs_eq:
  "setup_inputs d rc fc oc =
     (if plants_defined d then Inr (concat (map (planet_block d rc fc oc) (data_planets d)))
      else Inl IndexError)"
  by (simp add: setup_inputs_def plants_defined_def planets_loop_ok planets_loop_bad)

section \<open>The research expander\<close>

lemma recipe_keys_loop_Some:
  "flt s = Some v \<Longrightarrow>
   recipe_keys_loop flt s rks pr = Inr (fold (\<lambda>k. AList.update k v) rks pr)"
  by (induction rks arbitrary: pr) auto

lemma recipe_keys_loop_None:
  "flt s = None \<Longrightarrow> rks \<noteq> [] \<Longrightarrow> recipe_keys_loop flt s rks pr = Inl ValueError"
  by (cases rks) auto

lemma map_of_fold_update:
  "map_of (fold (\<lambda>k. AList.update k v) rks pr) rk = (if rk \<in> set rks then Some v else map_of pr rk)"
  by (induction rks arbitrary: pr) (auto simp: update_conv')

lemma table_nonempty:
  "map_of RESEARCH_PRODUCTIVITY_ITEM_RECIPE_MAP k = Some rks \<Longrightarrow> rks \<noteq> []"
  by (auto simp: RESEARCH_PRODUCTIVITY_ITEM_RECIPE_MAP_def split: if_splits)

text \<open>On well-formed tokens the loop returns a dict in which a recipe key has the level of
  the last token that stands for it, and keeps its old value when no token does.\<close>

lemma research_loop_ok:
  "list_all (research_token_ok flt) items \<Longrightarrow>
   \<exists>m. research_loop flt items pr = Inr m \<and>
       (\<forall>rk. map_of m rk =
          (case filter (\<lambda>t. rk \<in> set (token_recipes t)) items of
             [] \<Rightarrow> map_of pr rk
           | t # ts \<Rightarrow> flt (cost_segment (last (t # ts)))))"
proof (induction items arbitrary: pr)
  case Nil
  then show ?case by simp
next
  case (Cons t items)
  from Cons.prems obtain rks v where t:
    "count_list t (CHR ''='') = 1"
    "map_of RESEARCH_PRODUCTIVITY_ITEM_RECIPE_MAP (key_segment t) = Some rks"
    "flt (cost_segment t) = Some v"
    by (auto simp: research_token_ok_def)
  let ?pr = "fold (\<lambda>k. AList.update k v) rks pr"
  from Cons.prems have "list_all (research_token_ok flt) items" by simp
  from Cons.IH [OF this, of ?pr] obtain m where m:
    "research_loop flt items ?pr = Inr m"
    "\<And>rk. map_of m rk =
          (case filter (\<lambda>t. rk \<in> set (token_recipes t)) items of
             [] \<Rightarrow> map_of ?pr rk
           | t # ts \<Rightarrow> flt (cost_segment (last (t # ts))))"
    by blast
  have step: "research_loop flt (t # items) pr = Inr m"
    using t m(1) by (simp add: unpack2_str_split recipe_keys_loop_Some)
  have tr: "token_recipes t = rks" using t by (simp add: token_recipes_def)
  have "map_of m rk =
          (case filter (\<lambda>t. rk \<in> set (token_recipes t)) (t # items) of
             [] \<Rightarrow> map_of pr rk
           | t # ts \<Rightarrow> flt (cost_segment (last (t # ts))))" for rk
    using m(2) [of rk] t(3) tr
    by (auto simp: map_of_fold_update split: list.splits)
  with step show ?case by blast
qed

lemma research_loop_bad:
  "\<not> list_all (research_token_ok flt) items \<Longrightarrow> \<exists>e. research_loop flt items pr = Inl e"
proof (induction items arbitrary: pr)
  case Nil
  then show ?case by simp
next
  case (Cons t items)
  show ?case
  proof (cases "research_token_ok flt t")
    case True
    then obtain rks v where t:
      "count_list t (CHR ''='') = 1"
      "map_of RESEARCH_PRODUCTIVITY_ITEM_RECIPE_MAP (key_segment t) = Some rks"
      "flt (cost_segment t) = Some v"
      by (auto simp: research_token_ok_def)
    from True Cons.prems have "\<not> list_all (research_token_ok flt) items" by simp
    from Cons.IH [OF this] t show ?thesis
      by (simp add: unpack2_str_split recipe_keys_loop_Some)
  next
    case False
    then show ?thesis
      by (auto simp: research_token_ok_def unpack2_str_split recipe_keys_loop_None
          dest: table_nonempty split: option.splits)
  qed
qed

text \<open>The first token that is not well-formed decides the exception: a token with one
  separator and an unknown key raises \<open>KeyError\<close> when the tokens before it are well-formed.\<close>

lemma research_loop_unknown:
  "list_all (research_token_ok flt) xs \<Longrightarrow>
   count_list t (CHR ''='') = 1 \<Longrightarrow>
   map_of RESEARCH_PRODUCTIVITY_ITEM_RECIPE_MAP (key_segment t) = None \<Longrightarrow>
   research_loop flt (xs @ t # ys) pr = Inl KeyError"
proof (induction xs arbitrary: pr)
  case Nil
  then show ?case by (simp add: unpack2_str_split)
next
  case (Cons x xs)
  from Cons.prems(1) obtain rks v where x:
    "count_list x (CHR ''='') = 1"
    "map_of RESEARCH_PRODUCTIVITY_ITEM_RECIPE_MAP (key_segment x) = Some rks"
    "flt (cost_segment x) = Some v"
    by (auto simp: research_token_ok_def)
  from Cons have "research_loop flt (xs @ t # ys) (fold (\<lambda>k. AList.update k v) rks pr) = Inl KeyError"
    by simp
  with x show ?case by (simp add: unpack2_str_split recipe_keys_loop_Some)
qed

section \<open>The assembled configuration\<close>

lemma main_Inr_inputs: "main flt d a = Inr cfg \<Longrightarrow> main_inputs flt d a = Inr (inputs cfg)"
  by (auto simp: main_def split: sum.splits)

lemma main_inputs_Inl: "main_inputs flt d a = Inl e \<Longrightarrow> main flt d a = Inl e"
  by (simp add: main_def)

lemma main_research_Inl: "main_productivity_research flt a = Inl e \<Longrightarrow> \<exists>e'. main flt d a = Inl e'"
  by (simp add: main_def split: sum.splits)

lemma main_inputs_default:
  "arg_input_items a = None \<Longrightarrow> arg_input_resources a = None \<Longrightarrow>
   main_inputs flt d a =
     setup_inputs d (arg_resource_cost a) (arg_farming_cost a) (arg_offshore_cost a)"
  by (simp add: main_inputs_def)

lemma main_inputs_manual:
  "arg_input_items a \<noteq> None \<or> arg_input_resources a \<noteq> None \<Longrightarrow>
   main_inputs flt d a =
     (if (case arg_input_items a of None \<Rightarrow> True | Some ts \<Rightarrow> list_all (token_ok flt) ts) \<and>
         (case arg_input_resources a of None \<Rightarrow> True | Some ts \<Rightarrow> list_all (token_ok flt) ts)
      then Inr (manual_entries flt (arg_input_quality a) (arg_input_items a) (arg_input_resources a))
      else Inl ValueError)"
  by (auto simp: main_inputs_def manual_entries_def parse_input_list_eq parse_resources_list_eq
      split: option.splits)

lemma main_inputs_manual_Inr:
  "arg_input_items a \<noteq> None \<or> arg_input_resources a \<noteq> None \<Longrightarrow>
   main_inputs flt d a = Inr xs \<Longrightarrow>
   xs = manual_entries flt (arg_input_quality a) (arg_input_items a) (arg_input_resources a)"
  by (simp add: main_inputs_manual split: if_splits)

section \<open>Properties\<close>

text \<open>
  C2. On a dataset whose planets list only defined plants, and for all cost parameters,
  \<open>setup_inputs\<close> returns, planet after planet in dataset order: one entry per offshore
  key (quality normal, resource false, offshore cost); then, for each plant of the planet in
  order, one entry per element of the result list of that plant (quality normal, resource
  false, farming cost); then one entry per minable resource key (quality normal, resource
  true, resource cost). The blocks are concatenated as they are: nothing is validated and a
  key repeated on several planets is emitted once per occurrence.
\<close>

theorem setup_inputs_enumeration:
  "plants_defined d \<Longrightarrow>
   setup_inputs d rc fc oc = Inr (concat (map (planet_block d rc fc oc) (data_planets d)))"
proof -
  assume "plants_defined d"
  then have "list_all (\<lambda>pl. list_all (\<lambda>k. k \<in> set (map plant_key (data_plants d)))
                              (res_plants (resources pl))) (data_planets d)"
    by (simp add: plants_defined_def)
  then have "planets_loop d rc fc oc (data_planets d) [] =
      Inr ([] @ concat (map (planet_block d rc fc oc) (data_planets d)))"
    by (rule planets_loop_ok)
  then show ?thesis by (simp add: setup_inputs_def)
qed

theorem setup_inputs_enumeration_witness:
  "plants_defined example_data \<and>
   setup_inputs example_data (1 :: real) 1 (1 / 10) =
     Inr [\<lparr>key = ''water'', quality = ''normal'', resource = False, cost = 1 / 10\<rparr>,
          \<lparr>key = ''wood'', quality = ''normal'', resource = False, cost = 1\<rparr>,
          \<lparr>key = ''iron-ore'', quality = ''normal'', resource = True, cost = 1\<rparr>,
          \<lparr>key = ''coal'', quality = ''normal'', resource = True, cost = 1\<rparr>,
          \<lparr>key = ''water'', quality = ''normal'', resource = False, cost = 1 / 10\<rparr>,
          \<lparr>key = ''yumako'', quality = ''normal'', resource = False, cost = 1\<rparr>,
          \<lparr>key = ''jellynut'', quality = ''normal'', resource = False, cost = 1\<rparr>,
          \<lparr>key = ''stone'', quality = ''normal'', resource = True, cost = 1\<rparr>]"
proof -
  have h: "plants_defined example_data"
    by (simp add: plants_defined_def example_data_def)
  from setup_inputs_enumeration [OF h, of "1 :: real" 1 "1 / 10"] h show ?thesis
    by (simp add: example_data_def planet_block_def lookup_results_def)
qed

text \<open>
  C3. The item variant of the manual parser. When every token has exactly one \<open>=\<close> and a
  cost segment accepted by \<open>float\<close>, the result has one entry per token, in order, with the
  key before the first \<open>=\<close>, the quality given by the caller, resource false and the parsed
  cost. The parser fails if and only if some token does not have exactly one separator or
  has a cost segment that \<open>float\<close> rejects; the failure is a \<open>ValueError\<close>, and \<open>main\<close> then
  ends with that error instead of a configuration.
\<close>

theorem parse_input_list_format:
  "(list_all (token_ok flt) items \<longrightarrow>
      parse_input_list flt items q =
        Inr (map (\<lambda>t. \<lparr>key = key_segment t, quality = q, resource = False,
                        cost = the (flt (cost_segment t))\<rparr>) items)) \<and>
   ((\<exists>e. parse_input_list flt items q = Inl e) \<longleftrightarrow>
      (\<exists>t \<in> set items. count_list t (CHR ''='') \<noteq> 1 \<or> flt (cost_segment t) = None)) \<and>
   (\<forall>e. parse_input_list flt items q = Inl e \<longrightarrow> e = ValueError) \<and>
   (\<forall>e. arg_input_items a = Some items \<and> parse_input_list flt items (arg_input_quality a) = Inl e
      \<longrightarrow> main flt d a = Inl e)"
proof (intro conjI allI impI)
  assume "list_all (token_ok flt) items"
  then show "parse_input_list flt items q =
        Inr (map (\<lambda>t. \<lparr>key = key_segment t, quality = q, resource = False,
                        cost = the (flt (cost_segment t))\<rparr>) items)"
    by (simp add: parse_input_list_eq item_entry_def)
next
  show "(\<exists>e. parse_input_list flt items q = Inl e) \<longleftrightarrow>
      (\<exists>t \<in> set items. count_list t (CHR ''='') \<noteq> 1 \<or> flt (cost_segment t) = None)"
    by (auto simp: parse_input_list_eq list_all_iff token_ok_def)
next
  fix e assume "parse_input_list flt items q = Inl e"
  then show "e = ValueError"
    by (simp add: parse_input_list_eq split: if_splits)
next
  fix e
  assume "arg_input_items a = Some items \<and> parse_input_list flt items (arg_input_quality a) = Inl e"
  then have "main_inputs flt d a = Inl e"
    by (simp add: main_inputs_def)
  then show "main flt d a = Inl e" by (rule main_inputs_Inl)
qed

theorem parse_input_list_format_witness:
  "list_all (token_ok dec_float) [''copper-plate=2.5''] \<and>
   parse_input_list dec_float [''copper-plate=2.5''] ''normal'' =
     Inr [\<lparr>key = ''copper-plate'', quality = ''normal'', resource = False, cost = 5 / 2\<rparr>] \<and>
   count_list ''bad-token'' (CHR ''='') \<noteq> 1 \<and>
   parse_input_list dec_float [''bad-token''] ''normal'' = Inl ValueError \<and>
   count_list ''key=notanumber'' (CHR ''='') = 1 \<and>
   dec_float (cost_segment ''key=notanumber'') = None \<and>
   parse_input_list dec_float [''key=notanumber''] ''normal'' = Inl ValueError \<and>
   main dec_float example_data (default_args\<lparr>arg_input_items := Some [''key=notanumber'']\<rparr>) =
     Inl ValueError"
proof -
  have ok: "list_all (token_ok dec_float) [''copper-plate=2.5'']"
    by (simp add: token_ok_def cost_segment_def dec_float_values)
  have seg: "key_segment ''copper-plate=2.5'' = ''copper-plate''"
    "cost_segment ''copper-plate=2.5'' = ''2.5''"
    "cost_segment ''key=notanumber'' = ''notanumber''"
    by (simp_all add: key_segment_def cost_segment_def)
  have bad1: "count_list ''bad-token'' (CHR ''='') \<noteq> 1" by simp
  have bad2: "count_list ''key=notanumber'' (CHR ''='') = 1"
    "dec_float (cost_segment ''key=notanumber'') = None"
    by (simp_all add: seg dec_float_values)
  note w1 = parse_input_list_format [of dec_float "[''copper-plate=2.5'']" "''normal''"]
  note w2 = parse_input_list_format [of dec_float "[''bad-token'']" "''normal''"]
  note w3 = parse_input_list_format [of dec_float "[''key=notanumber'']" "''normal''"
      "default_args\<lparr>arg_input_items := Some [''key=notanumber'']\<rparr>" example_data]
  have r1: "parse_input_list dec_float [''copper-plate=2.5''] ''normal'' =
     Inr [\<lparr>key = ''copper-plate'', quality = ''normal'', resource = False, cost = 5 / 2\<rparr>]"
    using w1 ok by (simp add: seg dec_float_values)
  have r2: "parse_input_list dec_float [''bad-token''] ''normal'' = Inl ValueError"
    using w2 bad1 by auto
  have r3: "parse_input_list dec_float [''key=notanumber''] ''normal'' = Inl ValueError"
    using w3 bad2 by auto
  have q: "arg_input_quality (default_args\<lparr>arg_input_items := Some [''key=notanumber'']\<rparr>) = ''normal''"
    by (simp add: default_args_def)
  have r4: "main dec_float example_data (default_args\<lparr>arg_input_items := Some [''key=notanumber'']\<rparr>) =
     Inl ValueError"
    using w3 r3 q by simp
  from ok r1 bad1 r2 bad2 r3 r4 show ?thesis by blast
qed

text \<open>
  C8. The resource variant of the manual parser parses as the item variant does: it fails
  on exactly the same token lists, with the same error, and where the item variant returns
  entries it returns the same keys and costs in the same order, each with quality
  \<open>normal\<close> and resource true, whatever input quality the item variant was given. In
  particular the token \<open>iron-ore=1.0\<close> gives the single entry with key \<open>iron-ore\<close>, quality
  \<open>normal\<close>, resource true and the cost \<open>float\<close> reads from \<open>1.0\<close>.
\<close>

theorem parse_resources_list_variant:
  "((\<exists>e. parse_resources_list flt items = Inl e) \<longleftrightarrow> (\<exists>e. parse_input_list flt items q = Inl e)) \<and>
   (\<forall>e. parse_input_list flt items q = Inl e \<longrightarrow> parse_resources_list flt items = Inl e) \<and>
   (\<forall>xs. parse_input_list flt items q = Inr xs \<longrightarrow>
      parse_resources_list flt items =
        Inr (map (\<lambda>i. \<lparr>key = key i, quality = ''normal'', resource = True, cost = cost i\<rparr>) xs)) \<and>
   (\<forall>c. flt ''1.0'' = Some c \<longrightarrow>
      parse_resources_list flt [''iron-ore=1.0''] =
        Inr [\<lparr>key = ''iron-ore'', quality = ''normal'', resource = True, cost = c\<rparr>])"
proof (intro conjI allI impI)
  show "(\<exists>e. parse_resources_list flt items = Inl e) \<longleftrightarrow> (\<exists>e. parse_input_list flt items q = Inl e)"
    by (simp add: parse_resources_list_eq parse_input_list_eq)
next
  fix e assume "parse_input_list flt items q = Inl e"
  then show "parse_resources_list flt items = Inl e"
    by (simp add: parse_resources_list_eq parse_input_list_eq split: if_splits)
next
  fix xs assume "parse_input_list flt items q = Inr xs"
  then show "parse_resources_list flt items =
        Inr (map (\<lambda>i. \<lparr>key = key i, quality = ''normal'', resource = True, cost = cost i\<rparr>) xs)"
    by (auto simp: parse_resources_list_eq parse_input_list_eq resource_entry_def item_entry_def
        split: if_splits)
next
  fix c assume c: "flt ''1.0'' = Some c"
  have seg: "key_segment ''iron-ore=1.0'' = ''iron-ore''" "cost_segment ''iron-ore=1.0'' = ''1.0''"
    by (simp_all add: key_segment_def cost_segment_def)
  with c have "list_all (token_ok flt) [''iron-ore=1.0'']"
    by (simp add: token_ok_def)
  with c seg show "parse_resources_list flt [''iron-ore=1.0''] =
        Inr [\<lparr>key = ''iron-ore'', quality = ''normal'', resource = True, cost = c\<rparr>]"
    by (simp add: parse_resources_list_eq resource_entry_def)
qed

theorem parse_resources_list_variant_witness:
  "parse_input_list dec_float [''iron-ore=1.0'', ''coal=2.5''] ''rare'' =
     Inr [\<lparr>key = ''iron-ore'', quality = ''rare'', resource = False, cost = 1\<rparr>,
          \<lparr>key = ''coal'', quality = ''rare'', resource = False, cost = 5 / 2\<rparr>] \<and>
   parse_resources_list dec_float [''iron-ore=1.0'', ''coal=2.5''] =
     Inr [\<lparr>key = ''iron-ore'', quality = ''normal'', resource = True, cost = 1\<rparr>,
          \<lparr>key = ''coal'', quality = ''normal'', resource = True, cost = 5 / 2\<rparr>] \<and>
   parse_input_list dec_float [''iron-ore=1.0'', ''bad-token''] ''rare'' = Inl ValueError \<and>
   parse_resources_list dec_float [''iron-ore=1.0'', ''bad-token''] = Inl ValueError \<and>
   dec_float ''1.0'' = Some 1 \<and>
   parse_resources_list dec_float [''iron-ore=1.0''] =
     Inr [\<lparr>key = ''iron-ore'', quality = ''normal'', resource = True, cost = 1\<rparr>]"
proof -
  have p1: "parse_input_list dec_float [''iron-ore=1.0'', ''coal=2.5''] ''rare'' =
     Inr [\<lparr>key = ''iron-ore'', quality = ''rare'', resource = False, cost = 1\<rparr>,
          \<lparr>key = ''coal'', quality = ''rare'', resource = False, cost = 5 / 2\<rparr>]"
    by (simp add: parse_input_list_def str_split_def dec_float_values)
  have p2: "parse_input_list dec_float [''iron-ore=1.0'', ''bad-token''] ''rare'' = Inl ValueError"
    by (simp add: parse_input_list_def str_split_def dec_float_values)
  have f: "dec_float ''1.0'' = Some 1" by (simp add: dec_float_values)
  note w1 = parse_resources_list_variant [of dec_float "[''iron-ore=1.0'', ''coal=2.5'']" "''rare''"]
  note w2 = parse_resources_list_variant [of dec_float "[''iron-ore=1.0'', ''bad-token'']" "''rare''"]
  have r1: "parse_resources_list dec_float [''iron-ore=1.0'', ''coal=2.5''] =
     Inr [\<lparr>key = ''iron-ore'', quality = ''normal'', resource = True, cost = 1\<rparr>,
          \<lparr>key = ''coal'', quality = ''normal'', resource = True, cost = 5 / 2\<rparr>]"
    using w1 p1 by simp
  have r2: "parse_resources_list dec_float [''iron-ore=1.0'', ''bad-token''] = Inl ValueError"
    using w2 p2 by simp
  have r3: "parse_resources_list dec_float [''iron-ore=1.0''] =
     Inr [\<lparr>key = ''iron-ore'', quality = ''normal'', resource = True, cost = 1\<rparr>]"
    using w1 f by simp
  from p1 p2 f r1 r2 r3 show ?thesis by blast
qed

text \<open>
  C10. When both manual lists are supplied and \<open>main\<close> builds a configuration, its input
  list is the entries of the item tokens in token order followed by the entries of the
  resource tokens in token order: one entry per token, also for repeated keys, every item
  entry before every resource entry.
\<close>

theorem manual_inputs_order:
  "arg_input_items a = Some items \<Longrightarrow> arg_input_resources a = Some ress \<Longrightarrow>
   main flt d a = Inr cfg \<Longrightarrow>
   inputs cfg =
     map (\<lambda>t. \<lparr>key = key_segment t, quality = arg_input_quality a, resource = False,
                cost = the (flt (cost_segment t))\<rparr>) items @
     map (\<lambda>t. \<lparr>key = key_segment t, quality = ''normal'', resource = True,
                cost = the (flt (cost_segment t))\<rparr>) ress \<and>
   length (inputs cfg) = length items + length ress \<and>
   (\<forall>i < length items. resource (inputs cfg ! i) = False \<and> key (inputs cfg ! i) = key_segment (items ! i)) \<and>
   (\<forall>j < length ress. resource (inputs cfg ! (length items + j)) = True \<and>
      key (inputs cfg ! (length items + j)) = key_segment (ress ! j))"
proof -
  assume a: "arg_input_items a = Some items" "arg_input_resources a = Some ress"
    and m: "main flt d a = Inr cfg"
  from m have "main_inputs flt d a = Inr (inputs cfg)" by (rule main_Inr_inputs)
  with a have "inputs cfg =
      manual_entries flt (arg_input_quality a) (arg_input_items a) (arg_input_resources a)"
    by (intro main_inputs_manual_Inr) simp_all
  with a have eq: "inputs cfg =
     map (\<lambda>t. \<lparr>key = key_segment t, quality = arg_input_quality a, resource = False,
                cost = the (flt (cost_segment t))\<rparr>) items @
     map (\<lambda>t. \<lparr>key = key_segment t, quality = ''normal'', resource = True,
                cost = the (flt (cost_segment t))\<rparr>) ress"
    by (simp add: manual_entries_def item_entry_def [abs_def] resource_entry_def [abs_def])
  then show ?thesis
    by (simp add: nth_append)
qed

theorem manual_inputs_order_witness:
  "\<exists>cfg.
     arg_input_items (default_args\<lparr>arg_input_items := Some [''coal=2.5'', ''coal=1.0''],
                                  arg_input_resources := Some [''stone=0.5'', ''coal=1.0'']\<rparr>) =
       Some [''coal=2.5'', ''coal=1.0''] \<and>
     arg_input_resources (default_args\<lparr>arg_input_items := Some [''coal=2.5'', ''coal=1.0''],
                                      arg_input_resources := Some [''stone=0.5'', ''coal=1.0'']\<rparr>) =
       Some [''stone=0.5'', ''coal=1.0''] \<and>
     main dec_float example_data
       (default_args\<lparr>arg_input_items := Some [''coal=2.5'', ''coal=1.0''],
                     arg_input_resources := Some [''stone=0.5'', ''coal=1.0'']\<rparr>) = Inr cfg \<and>
     inputs cfg =
       [\<lparr>key = ''coal'', quality = ''normal'', resource = False, cost = 5 / 2\<rparr>,
        \<lparr>key = ''coal'', quality = ''normal'', resource = False, cost = 1\<rparr>,
        \<lparr>key = ''stone'', quality = ''normal'', resource = True, cost = 1 / 2\<rparr>,
        \<lparr>key = ''coal'', quality = ''normal'', resource = True, cost = 1\<rparr>]"
proof -
  let ?a = "default_args\<lparr>arg_input_items := Some [''coal=2.5'', ''coal=1.0''],
                         arg_input_resources := Some [''stone=0.5'', ''coal=1.0'']\<rparr>"
  have h1: "arg_input_items ?a = Some [''coal=2.5'', ''coal=1.0'']" by simp
  have h2: "arg_input_resources ?a = Some [''stone=0.5'', ''coal=1.0'']" by simp
  have q: "arg_input_quality ?a = ''normal''" by (simp add: default_args_def)
  have "\<exists>cfg. main dec_float example_data ?a = Inr cfg"
    by (simp add: main_def main_inputs_def main_productivity_research_def default_args_def
        parse_input_list_def parse_resources_list_def str_split_def dec_float_values)
  then obtain cfg where m: "main dec_float example_data ?a = Inr cfg" ..
  have seg: "key_segment ''coal=2.5'' = ''coal''" "cost_segment ''coal=2.5'' = ''2.5''"
    "key_segment ''coal=1.0'' = ''coal''" "cost_segment ''coal=1.0'' = ''1.0''"
    "key_segment ''stone=0.5'' = ''stone''" "cost_segment ''stone=0.5'' = ''0.5''"
    by (simp_all add: key_segment_def cost_segment_def)
  from manual_inputs_order [OF h1 h2 m] have "inputs cfg =
       [\<lparr>key = ''coal'', quality = ''normal'', resource = False, cost = 5 / 2\<rparr>,
        \<lparr>key = ''coal'', quality = ''normal'', resource = False, cost = 1\<rparr>,
        \<lparr>key = ''stone'', quality = ''normal'', resource = True, cost = 1 / 2\<rparr>,
        \<lparr>key = ''coal'', quality = ''normal'', resource = True, cost = 1\<rparr>]"
    by (simp add: q seg dec_float_values)
  with h1 h2 m show ?thesis by blast
qed

lemma main_Inr_qualities:
  "main flt d a = Inr cfg \<Longrightarrow>
   prod_module_quality cfg = py_or (arg_prod_module_quality a) (arg_module_quality a) \<and>
   quality_module_quality cfg = py_or (arg_quality_module_quality a) (arg_module_quality a) \<and>
   speed_module_quality cfg = py_or (arg_speed_module_quality a) (arg_module_quality a) \<and>
   building_quality cfg = arg_building_quality a \<and>
   max_quality_unlocked cfg = arg_max_quality_unlocked a"
  by (auto simp: main_def split: sum.splits)

lemma main_default_args:
  "\<exists>cfg. main dec_float example_data (default_args\<lparr>arg_module_quality := mq,
      arg_prod_module_quality := pq, arg_quality_module_quality := qq,
      arg_speed_module_quality := sq\<rparr>) = Inr cfg"
  by (simp add: main_def main_inputs_def main_productivity_research_def default_args_def
      setup_inputs_def example_data_def)

lemma manual_entries_explicit:
  "manual_entries flt q items ress =
     (case items of
        None \<Rightarrow> []
      | Some ts \<Rightarrow>
          map (\<lambda>t. \<lparr>key = key_segment t, quality = q, resource = False,
                     cost = the (flt (cost_segment t))\<rparr>) ts) @
     (case ress of
        None \<Rightarrow> []
      | Some ts \<Rightarrow>
          map (\<lambda>t. \<lparr>key = key_segment t, quality = ''normal'', resource = True,
                     cost = the (flt (cost_segment t))\<rparr>) ts)"
  by (cases items; cases ress) (simp_all add: manual_entries_def item_entry_def resource_entry_def)

lemma main_inputs_manual_independent:
  "arg_input_items a \<noteq> None \<or> arg_input_resources a \<noteq> None \<Longrightarrow>
   main_inputs flt d' (a\<lparr>arg_resource_cost := rc, arg_farming_cost := fc, arg_offshore_cost := oc\<rparr>) =
     main_inputs flt d a"
proof -
  assume h: "arg_input_items a \<noteq> None \<or> arg_input_resources a \<noteq> None"
  let ?a' = "a\<lparr>arg_resource_cost := rc, arg_farming_cost := fc, arg_offshore_cost := oc\<rparr>"
  from h have h': "arg_input_items ?a' \<noteq> None \<or> arg_input_resources ?a' \<noteq> None"
    by simp
  show ?thesis
    unfolding main_inputs_manual [OF h] main_inputs_manual [OF h'] by simp
qed

text \<open>
  C1. Input selection is all or nothing. When \<open>main\<close> builds a configuration and neither
  manual list was supplied, the input list is exactly the result of \<open>setup_inputs\<close> for the
  three cost arguments. When at least one manual list was supplied, the input list is
  exactly the union of the manual lists supplied (the entries of the item tokens followed by
  the entries of the resource tokens), and the default enumeration has no part in it: the
  same list is chosen for every dataset and for every value of the three cost arguments, so
  it is never a merge of default and manual entries.
\<close>

theorem input_selection_policy:
  "main flt d a = Inr cfg \<Longrightarrow>
   (arg_input_items a = None \<and> arg_input_resources a = None \<longrightarrow>
      setup_inputs d (arg_resource_cost a) (arg_farming_cost a) (arg_offshore_cost a) =
        Inr (inputs cfg)) \<and>
   (arg_input_items a \<noteq> None \<or> arg_input_resources a \<noteq> None \<longrightarrow>
      inputs cfg =
        (case arg_input_items a of
           None \<Rightarrow> []
         | Some items \<Rightarrow>
             map (\<lambda>t. \<lparr>key = key_segment t, quality = arg_input_quality a, resource = False,
                        cost = the (flt (cost_segment t))\<rparr>) items) @
        (case arg_input_resources a of
           None \<Rightarrow> []
         | Some ress \<Rightarrow>
             map (\<lambda>t. \<lparr>key = key_segment t, quality = ''normal'', resource = True,
                        cost = the (flt (cost_segment t))\<rparr>) ress)) \<and>
   (arg_input_items a \<noteq> None \<or> arg_input_resources a \<noteq> None \<longrightarrow>
      (\<forall>d' rc fc oc.
         main_inputs flt d'
           (a\<lparr>arg_resource_cost := rc, arg_farming_cost := fc, arg_offshore_cost := oc\<rparr>) =
           Inr (inputs cfg)))"
proof -
  assume "main flt d a = Inr cfg"
  then have m: "main_inputs flt d a = Inr (inputs cfg)" by (rule main_Inr_inputs)
  have "setup_inputs d (arg_resource_cost a) (arg_farming_cost a) (arg_offshore_cost a) =
        Inr (inputs cfg)"
    if "arg_input_items a = None \<and> arg_input_resources a = None"
    using that m by (simp add: main_inputs_default)
  moreover have "inputs cfg =
        (case arg_input_items a of
           None \<Rightarrow> []
         | Some items \<Rightarrow>
             map (\<lambda>t. \<lparr>key = key_segment t, quality = arg_input_quality a, resource = False,
                        cost = the (flt (cost_segment t))\<rparr>) items) @
        (case arg_input_resources a of
           None \<Rightarrow> []
         | Some ress \<Rightarrow>
             map (\<lambda>t. \<lparr>key = key_segment t, quality = ''normal'', resource = True,
                        cost = the (flt (cost_segment t))\<rparr>) ress)"
    if "arg_input_items a \<noteq> None \<or> arg_input_resources a \<noteq> None"
    using main_inputs_manual_Inr [OF that m]
    by (simp add: manual_entries_explicit)
  moreover have "main_inputs flt d'
           (a\<lparr>arg_resource_cost := rc, arg_farming_cost := fc, arg_offshore_cost := oc\<rparr>) =
           Inr (inputs cfg)"
    if "arg_input_items a \<noteq> None \<or> arg_input_resources a \<noteq> None" for d' rc fc oc
    using main_inputs_manual_independent
      [OF that, where flt = flt and d = d and d' = d' and rc = rc and fc = fc and oc = oc] m
    by simp
  ultimately show ?thesis by blast
qed

theorem input_selection_policy_witness:
  "(\<exists>cfg. main dec_float example_data default_args = Inr cfg \<and>
      arg_input_items default_args = None \<and> arg_input_resources default_args = None \<and>
      setup_inputs example_data (1 :: real) 1 (1 / 10) = Inr (inputs cfg)) \<and>
   (\<exists>cfg. main dec_float example_data (default_args\<lparr>arg_input_resources := Some [''iron-ore=1.0'']\<rparr>) =
        Inr cfg \<and>
      arg_input_resources (default_args\<lparr>arg_input_resources := Some [''iron-ore=1.0'']\<rparr>) \<noteq> None \<and>
      inputs cfg = [\<lparr>key = ''iron-ore'', quality = ''normal'', resource = True, cost = 1\<rparr>] \<and>
      main_inputs dec_float shared_result_data
        (default_args\<lparr>arg_input_resources := Some [''iron-ore=1.0''],
                      arg_resource_cost := 7, arg_farming_cost := 8, arg_offshore_cost := 9\<rparr>) =
        Inr (inputs cfg))"
proof -
  let ?a = "default_args\<lparr>arg_input_resources := Some [''iron-ore=1.0'']\<rparr>"
  have "\<exists>cfg. main dec_float example_data default_args = Inr cfg"
    by (simp add: main_def main_inputs_def main_productivity_research_def default_args_def
        setup_inputs_def example_data_def)
  then obtain c1 where c1: "main dec_float example_data default_args = Inr c1" ..
  have n: "arg_input_items default_args = None \<and> arg_input_resources default_args = None"
    by (simp add: default_args_def)
  from input_selection_policy [OF c1] n
  have r1: "setup_inputs example_data (1 :: real) 1 (1 / 10) = Inr (inputs c1)"
    by (simp add: default_args_def)
  have "\<exists>cfg. main dec_float example_data ?a = Inr cfg"
    by (simp add: main_def main_inputs_def main_productivity_research_def default_args_def
        parse_resources_list_def str_split_def dec_float_values)
  then obtain c2 where c2: "main dec_float example_data ?a = Inr c2" ..
  have s: "arg_input_resources ?a \<noteq> None" by simp
  have i: "arg_input_items ?a = None" by (simp add: default_args_def)
  have seg: "key_segment ''iron-ore=1.0'' = ''iron-ore''" "cost_segment ''iron-ore=1.0'' = ''1.0''"
    by (simp_all add: key_segment_def cost_segment_def)
  note w = input_selection_policy [OF c2]
  from w s i
  have r2: "inputs c2 = [\<lparr>key = ''iron-ore'', quality = ''normal'', resource = True, cost = 1\<rparr>]"
    by (simp add: seg dec_float_values)
  from w s have "\<forall>d' rc fc oc.
         main_inputs dec_float d'
           (?a\<lparr>arg_resource_cost := rc, arg_farming_cost := fc, arg_offshore_cost := oc\<rparr>) =
           Inr (inputs c2)"
    by blast
  then have r3: "main_inputs dec_float shared_result_data
        (?a\<lparr>arg_resource_cost := 7, arg_farming_cost := 8, arg_offshore_cost := 9\<rparr>) =
        Inr (inputs c2)"
    by blast
  from c1 n r1 c2 s r2 r3 show ?thesis by blast
qed

text \<open>
  C9. A manual list that is supplied but empty still selects the manual branch. With an
  empty item list and no resource list (or the reverse) the input choice of \<open>main\<close> returns
  the empty list without calling \<open>setup_inputs\<close>, and a configuration built by \<open>main\<close> has
  no inputs; more generally, whenever one of the supplied lists is empty, the inputs of the
  configuration are exactly the entries of the supplied manual lists.
\<close>

theorem empty_manual_list_is_manual:
  "(arg_input_items a = Some [] \<and> arg_input_resources a = None \<longrightarrow> main_inputs flt d a = Inr []) \<and>
   (arg_input_items a = None \<and> arg_input_resources a = Some [] \<longrightarrow> main_inputs flt d a = Inr []) \<and>
   (\<forall>cfg. main flt d a = Inr cfg \<and> arg_input_items a = Some [] \<and> arg_input_resources a = None
      \<longrightarrow> inputs cfg = []) \<and>
   (\<forall>cfg. main flt d a = Inr cfg \<and> (arg_input_items a = Some [] \<or> arg_input_resources a = Some [])
      \<longrightarrow> inputs cfg =
            (case arg_input_items a of
               None \<Rightarrow> []
             | Some items \<Rightarrow>
                 map (\<lambda>t. \<lparr>key = key_segment t, quality = arg_input_quality a, resource = False,
                            cost = the (flt (cost_segment t))\<rparr>) items) @
            (case arg_input_resources a of
               None \<Rightarrow> []
             | Some ress \<Rightarrow>
                 map (\<lambda>t. \<lparr>key = key_segment t, quality = ''normal'', resource = True,
                            cost = the (flt (cost_segment t))\<rparr>) ress))"
proof (intro conjI allI impI)
  assume "arg_input_items a = Some [] \<and> arg_input_resources a = None"
  then show "main_inputs flt d a = Inr []"
    by (simp add: main_inputs_def parse_input_list_def)
next
  assume "arg_input_items a = None \<and> arg_input_resources a = Some []"
  then show "main_inputs flt d a = Inr []"
    by (simp add: main_inputs_def parse_resources_list_def)
next
  fix cfg
  assume h: "main flt d a = Inr cfg \<and> arg_input_items a = Some [] \<and> arg_input_resources a = None"
  then have "main_inputs flt d a = Inr (inputs cfg)" by (simp add: main_Inr_inputs)
  with h show "inputs cfg = []"
    by (simp add: main_inputs_def parse_input_list_def)
next
  fix cfg
  assume h: "main flt d a = Inr cfg \<and> (arg_input_items a = Some [] \<or> arg_input_resources a = Some [])"
  then have m: "main_inputs flt d a = Inr (inputs cfg)" by (simp add: main_Inr_inputs)
  from h have "arg_input_items a \<noteq> None \<or> arg_input_resources a \<noteq> None" by auto
  from main_inputs_manual_Inr [OF this m]
  show "inputs cfg =
            (case arg_input_items a of
               None \<Rightarrow> []
             | Some items \<Rightarrow>
                 map (\<lambda>t. \<lparr>key = key_segment t, quality = arg_input_quality a, resource = False,
                            cost = the (flt (cost_segment t))\<rparr>) items) @
            (case arg_input_resources a of
               None \<Rightarrow> []
             | Some ress \<Rightarrow>
                 map (\<lambda>t. \<lparr>key = key_segment t, quality = ''normal'', resource = True,
                            cost = the (flt (cost_segment t))\<rparr>) ress)"
    by (simp add: manual_entries_explicit)
qed

theorem empty_manual_list_is_manual_witness:
  "(\<exists>cfg.
      main dec_float example_data (default_args\<lparr>arg_input_items := Some []\<rparr>) = Inr cfg \<and>
      arg_input_items (default_args\<lparr>arg_input_items := Some []\<rparr>) = Some [] \<and>
      arg_input_resources (default_args\<lparr>arg_input_items := Some []\<rparr>) = None \<and>
      main_inputs dec_float example_data (default_args\<lparr>arg_input_items := Some []\<rparr>) = Inr [] \<and>
      inputs cfg = [] \<and>
      setup_inputs example_data (1 :: real) 1 (1 / 10) \<noteq> Inr (inputs cfg)) \<and>
   arg_input_items (default_args\<lparr>arg_input_resources := Some []\<rparr>) = None \<and>
   arg_input_resources (default_args\<lparr>arg_input_resources := Some []\<rparr>) = Some [] \<and>
   main_inputs dec_float example_data (default_args\<lparr>arg_input_resources := Some []\<rparr>) = Inr [] \<and>
   (\<exists>cfg.
      main dec_float example_data
        (default_args\<lparr>arg_input_items := Some [], arg_input_resources := Some [''stone=0.5'']\<rparr>) =
        Inr cfg \<and>
      inputs cfg = [\<lparr>key = ''stone'', quality = ''normal'', resource = True, cost = 1 / 2\<rparr>])"
proof -
  let ?a = "default_args\<lparr>arg_input_items := Some []\<rparr>"
  let ?b = "default_args\<lparr>arg_input_resources := Some []\<rparr>"
  let ?c = "default_args\<lparr>arg_input_items := Some [], arg_input_resources := Some [''stone=0.5'']\<rparr>"
  have h: "arg_input_items ?a = Some [] \<and> arg_input_resources ?a = None"
    by (simp add: default_args_def)
  note w = empty_manual_list_is_manual [of ?a dec_float example_data]
  from w h have mi: "main_inputs dec_float example_data ?a = Inr []" by blast
  then have "\<exists>cfg. main dec_float example_data ?a = Inr cfg"
    by (simp add: main_def main_productivity_research_def default_args_def)
  then obtain cfg where c: "main dec_float example_data ?a = Inr cfg" ..
  with w h have e: "inputs cfg = []" by blast
  have "setup_inputs example_data (1 :: real) 1 (1 / 10) \<noteq> Inr []"
    by (simp add: setup_inputs_def example_data_def)
  with c h mi e have first: "\<exists>cfg.
      main dec_float example_data ?a = Inr cfg \<and>
      arg_input_items ?a = Some [] \<and> arg_input_resources ?a = None \<and>
      main_inputs dec_float example_data ?a = Inr [] \<and>
      inputs cfg = [] \<and>
      setup_inputs example_data (1 :: real) 1 (1 / 10) \<noteq> Inr (inputs cfg)"
    by auto
  have hb: "arg_input_items ?b = None \<and> arg_input_resources ?b = Some []"
    by (simp add: default_args_def)
  with empty_manual_list_is_manual [of ?b dec_float example_data]
  have second: "main_inputs dec_float example_data ?b = Inr []" by blast
  have "\<exists>cfg. main dec_float example_data ?c = Inr cfg"
    by (simp add: main_def main_inputs_def main_productivity_research_def default_args_def
        parse_input_list_def parse_resources_list_def str_split_def dec_float_values)
  then obtain cfg' where c': "main dec_float example_data ?c = Inr cfg'" ..
  have hc: "arg_input_items ?c = Some [] \<or> arg_input_resources ?c = Some []" by simp
  have seg: "key_segment ''stone=0.5'' = ''stone''" "cost_segment ''stone=0.5'' = ''0.5''"
    by (simp_all add: key_segment_def cost_segment_def)
  from empty_manual_list_is_manual [of ?c dec_float example_data] c' hc
  have "inputs cfg' =
      (case arg_input_items ?c of
         None \<Rightarrow> []
       | Some items \<Rightarrow>
           map (\<lambda>t. \<lparr>key = key_segment t, quality = arg_input_quality ?c, resource = False,
                      cost = the (dec_float (cost_segment t))\<rparr>) items) @
      (case arg_input_resources ?c of
         None \<Rightarrow> []
       | Some ress \<Rightarrow>
           map (\<lambda>t. \<lparr>key = key_segment t, quality = ''normal'', resource = True,
                      cost = the (dec_float (cost_segment t))\<rparr>) ress)"
    by blast
  then have "inputs cfg' = [\<lparr>key = ''stone'', quality = ''normal'', resource = True, cost = 1 / 2\<rparr>]"
    by (simp add: seg dec_float_values)
  with c' have third: "\<exists>cfg. main dec_float example_data ?c = Inr cfg \<and>
      inputs cfg = [\<lparr>key = ''stone'', quality = ''normal'', resource = True, cost = 1 / 2\<rparr>]"
    by blast
  from first hb second third show ?thesis by blast
qed

text \<open>
  C6 (as amended). For each of the three module classes independently, the resolved quality
  of the configuration is the class-specific override when the caller gave a non-empty one,
  and the shared module quality when the caller gave none or gave the empty string.
  Building quality and max quality unlocked are copied from the arguments.
\<close>

theorem module_quality_override:
  "main flt d a = Inr cfg \<Longrightarrow>
   (arg_prod_module_quality a = None \<or> arg_prod_module_quality a = Some [] \<longrightarrow>
      prod_module_quality cfg = arg_module_quality a) \<and>
   (\<forall>s. arg_prod_module_quality a = Some s \<and> s \<noteq> [] \<longrightarrow> prod_module_quality cfg = s) \<and>
   (arg_quality_module_quality a = None \<or> arg_quality_module_quality a = Some [] \<longrightarrow>
      quality_module_quality cfg = arg_module_quality a) \<and>
   (\<forall>s. arg_quality_module_quality a = Some s \<and> s \<noteq> [] \<longrightarrow> quality_module_quality cfg = s) \<and>
   (arg_speed_module_quality a = None \<or> arg_speed_module_quality a = Some [] \<longrightarrow>
      speed_module_quality cfg = arg_module_quality a) \<and>
   (\<forall>s. arg_speed_module_quality a = Some s \<and> s \<noteq> [] \<longrightarrow> speed_module_quality cfg = s) \<and>
   building_quality cfg = arg_building_quality a \<and>
   max_quality_unlocked cfg = arg_max_quality_unlocked a"
proof -
  assume "main flt d a = Inr cfg"
  note q = main_Inr_qualities [OF this]
  have "py_or None dq = dq" "py_or (Some []) dq = dq" "s \<noteq> [] \<Longrightarrow> py_or (Some s) dq = s"
    for s dq
    by simp_all
  with q show ?thesis by auto
qed

theorem module_quality_override_witness:
  "\<exists>cfg.
     main dec_float example_data
       (default_args\<lparr>arg_module_quality := ''rare'', arg_prod_module_quality := None,
                     arg_quality_module_quality := Some ''epic'',
                     arg_speed_module_quality := Some ''''\<rparr>) = Inr cfg \<and>
     prod_module_quality cfg = ''rare'' \<and>
     quality_module_quality cfg = ''epic'' \<and>
     speed_module_quality cfg = ''rare'' \<and>
     building_quality cfg = ''legendary'' \<and>
     max_quality_unlocked cfg = ''legendary''"
proof -
  let ?a = "default_args\<lparr>arg_module_quality := ''rare'', arg_prod_module_quality := None,
                     arg_quality_module_quality := Some ''epic'',
                     arg_speed_module_quality := Some ''''\<rparr>"
  from main_default_args obtain cfg where c: "main dec_float example_data ?a = Inr cfg" ..
  have "arg_module_quality ?a = ''rare''" "arg_prod_module_quality ?a = None"
    "arg_quality_module_quality ?a = Some ''epic''" "''epic'' \<noteq> []"
    "arg_speed_module_quality ?a = Some []"
    "arg_building_quality ?a = ''legendary''" "arg_max_quality_unlocked ?a = ''legendary''"
    by (simp_all add: default_args_def)
  with module_quality_override [OF c] c show ?thesis by auto
qed

text \<open>An override given as the empty string is not used: the shared quality is.\<close>

theorem module_quality_override_counterexample:
  "arg_quality_module_quality
     (default_args\<lparr>arg_module_quality := ''rare'', arg_quality_module_quality := Some ''''\<rparr>) =
     Some '''' \<and>
   map_sum id quality_module_quality
     (main dec_float example_data
        (default_args\<lparr>arg_module_quality := ''rare'', arg_quality_module_quality := Some ''''\<rparr>)) =
     Inr ''rare''"
  by (simp add: main_def main_inputs_def main_productivity_research_def default_args_def
      setup_inputs_def example_data_def)

lemma parse_research_ok:
  "list_all (research_token_ok flt) items \<Longrightarrow>
   \<exists>m. parse_productivity_research_list flt items = Inr m \<and>
       (\<forall>rk. map_of m rk =
          (case filter (\<lambda>t. rk \<in> set (token_recipes t)) items of
             [] \<Rightarrow> None
           | t # ts \<Rightarrow> flt (cost_segment (last (t # ts)))))"
  using research_loop_ok [of flt items "[]"]
  by (simp add: parse_productivity_research_list_def cong: list.case_cong)

text \<open>
  C5. On a list of research tokens that each have one \<open>=\<close>, a key of the fixed table and a
  level \<open>float\<close> accepts, the expander returns a dict in which every recipe key of the
  recipe list of a token has the level of that token, unless a later token also stands for
  that recipe key, in which case the later token wins; a recipe key no token stands for is
  absent. In particular \<open>steel-plate=0.5\<close> alone gives \<open>steel-plate\<close> and \<open>casting-steel\<close>,
  both with the level read from \<open>0.5\<close>.
\<close>

theorem research_expansion:
  "(list_all (research_token_ok flt) items \<longrightarrow>
      (\<exists>m. parse_productivity_research_list flt items = Inr m \<and>
         (\<forall>xs t ys rk.
            items = xs @ t # ys \<and> rk \<in> set (token_recipes t) \<and>
            (\<forall>u \<in> set ys. rk \<notin> set (token_recipes u)) \<longrightarrow>
            map_of m rk = flt (cost_segment t)) \<and>
         (\<forall>rk. (\<forall>t \<in> set items. rk \<notin> set (token_recipes t)) \<longrightarrow> map_of m rk = None))) \<and>
   (\<forall>v. flt ''0.5'' = Some v \<longrightarrow>
      parse_productivity_research_list flt [''steel-plate=0.5''] =
        Inr [(''steel-plate'', v), (''casting-steel'', v)])"
proof (intro conjI allI impI)
  assume "list_all (research_token_ok flt) items"
  from parse_research_ok [OF this] obtain m where m:
    "parse_productivity_research_list flt items = Inr m"
    "\<And>rk. map_of m rk =
          (case filter (\<lambda>t. rk \<in> set (token_recipes t)) items of
             [] \<Rightarrow> None
           | t # ts \<Rightarrow> flt (cost_segment (last (t # ts))))"
    by blast
  have last_wins: "map_of m rk = flt (cost_segment t)"
    if "items = xs @ t # ys \<and> rk \<in> set (token_recipes t) \<and>
        (\<forall>u \<in> set ys. rk \<notin> set (token_recipes u))" for xs t ys rk
  proof -
    from that have "filter (\<lambda>t. rk \<in> set (token_recipes t)) ys = []"
      by (simp add: filter_empty_conv)
    with that have f: "filter (\<lambda>t. rk \<in> set (token_recipes t)) items =
        filter (\<lambda>t. rk \<in> set (token_recipes t)) xs @ [t]"
      by simp
    show ?thesis
      using m(2) [of rk] f
      by (cases "filter (\<lambda>t. rk \<in> set (token_recipes t)) xs") simp_all
  qed
  have absent: "map_of m rk = None"
    if "\<forall>t \<in> set items. rk \<notin> set (token_recipes t)" for rk
  proof -
    from that have "filter (\<lambda>t. rk \<in> set (token_recipes t)) items = []"
      by (simp add: filter_empty_conv)
    then show ?thesis by (simp add: m(2) [of rk])
  qed
  from m(1) last_wins absent
  show "\<exists>m. parse_productivity_research_list flt items = Inr m \<and>
         (\<forall>xs t ys rk.
            items = xs @ t # ys \<and> rk \<in> set (token_recipes t) \<and>
            (\<forall>u \<in> set ys. rk \<notin> set (token_recipes u)) \<longrightarrow>
            map_of m rk = flt (cost_segment t)) \<and>
         (\<forall>rk. (\<forall>t \<in> set items. rk \<notin> set (token_recipes t)) \<longrightarrow> map_of m rk = None)"
    by blast
next
  fix v assume "flt ''0.5'' = Some v"
  then show "parse_productivity_research_list flt [''steel-plate=0.5''] =
        Inr [(''steel-plate'', v), (''casting-steel'', v)]"
    by (simp add: parse_productivity_research_list_def str_split_def
        RESEARCH_PRODUCTIVITY_ITEM_RECIPE_MAP_def)
qed

theorem research_expansion_witness:
  "list_all (research_token_ok dec_float) [''steel-plate=0.5'', ''scrap=2.5'', ''steel-plate=1.0''] \<and>
   (\<exists>m. parse_productivity_research_list dec_float
           [''steel-plate=0.5'', ''scrap=2.5'', ''steel-plate=1.0''] = Inr m \<and>
        map_of m ''steel-plate'' = Some 1 \<and>
        map_of m ''casting-steel'' = Some 1 \<and>
        map_of m ''scrap-recycling'' = Some (5 / 2) \<and>
        map_of m ''plastic-bar'' = None) \<and>
   dec_float ''0.5'' = Some (1 / 2) \<and>
   parse_productivity_research_list dec_float [''steel-plate=0.5''] =
     Inr [(''steel-plate'', 1 / 2), (''casting-steel'', 1 / 2)]"
proof -
  let ?items = "[''steel-plate=0.5'', ''scrap=2.5'', ''steel-plate=1.0'']"
  have seg:
    "key_segment ''steel-plate=0.5'' = ''steel-plate''" "cost_segment ''steel-plate=0.5'' = ''0.5''"
    "key_segment ''scrap=2.5'' = ''scrap''" "cost_segment ''scrap=2.5'' = ''2.5''"
    "key_segment ''steel-plate=1.0'' = ''steel-plate''" "cost_segment ''steel-plate=1.0'' = ''1.0''"
    by (simp_all add: key_segment_def cost_segment_def)
  have rec:
    "token_recipes ''steel-plate=0.5'' = [''steel-plate'', ''casting-steel'']"
    "token_recipes ''scrap=2.5'' = [''scrap-recycling'']"
    "token_recipes ''steel-plate=1.0'' = [''steel-plate'', ''casting-steel'']"
    by (simp_all add: token_recipes_def seg RESEARCH_PRODUCTIVITY_ITEM_RECIPE_MAP_def)
  have ok: "list_all (research_token_ok dec_float) ?items"
    by (simp add: research_token_ok_def seg dec_float_values RESEARCH_PRODUCTIVITY_ITEM_RECIPE_MAP_def)
  note w = research_expansion [of dec_float ?items]
  from w ok obtain m where m:
    "parse_productivity_research_list dec_float ?items = Inr m"
    "\<And>xs t ys rk. ?items = xs @ t # ys \<and> rk \<in> set (token_recipes t) \<and>
            (\<forall>u \<in> set ys. rk \<notin> set (token_recipes u)) \<Longrightarrow>
            map_of m rk = dec_float (cost_segment t)"
    "\<And>rk. (\<forall>t \<in> set ?items. rk \<notin> set (token_recipes t)) \<Longrightarrow> map_of m rk = None"
    by blast
  have r1: "map_of m ''steel-plate'' = Some 1"
    using m(2) [of "[''steel-plate=0.5'', ''scrap=2.5'']" "''steel-plate=1.0''" "[]" "''steel-plate''"]
    by (simp add: rec seg dec_float_values)
  have r2: "map_of m ''casting-steel'' = Some 1"
    using m(2) [of "[''steel-plate=0.5'', ''scrap=2.5'']" "''steel-plate=1.0''" "[]" "''casting-steel''"]
    by (simp add: rec seg dec_float_values)
  have r3: "map_of m ''scrap-recycling'' = Some (5 / 2)"
    using m(2) [of "[''steel-plate=0.5'']" "''scrap=2.5''" "[''steel-plate=1.0'']" "''scrap-recycling''"]
    by (simp add: rec seg dec_float_values)
  have r4: "map_of m ''plastic-bar'' = None"
    using m(3) [of "''plastic-bar''"] by (simp add: rec)
  have f: "dec_float ''0.5'' = Some (1 / 2)" by (simp add: dec_float_values)
  with w have r5: "parse_productivity_research_list dec_float [''steel-plate=0.5''] =
     Inr [(''steel-plate'', 1 / 2), (''casting-steel'', 1 / 2)]"
    by blast
  from ok m(1) r1 r2 r3 r4 f r5 show ?thesis by blast
qed

text \<open>A token with a wrong number of separators, or with a known key and a level that
  \<open>float\<close> rejects, raises \<open>ValueError\<close> when the tokens before it are well-formed.\<close>

lemma research_loop_malformed:
  "list_all (research_token_ok flt) xs \<Longrightarrow>
   count_list t (CHR ''='') \<noteq> 1 \<or>
   (map_of RESEARCH_PRODUCTIVITY_ITEM_RECIPE_MAP (key_segment t) \<noteq> None \<and>
    flt (cost_segment t) = None) \<Longrightarrow>
   research_loop flt (xs @ t # ys) pr = Inl ValueError"
proof (induction xs arbitrary: pr)
  case Nil
  show ?case
  proof (cases "count_list t (CHR ''='') = 1")
    case False
    then show ?thesis by (simp add: unpack2_str_split)
  next
    case True
    with Nil.prems(2) obtain rks where t:
      "map_of RESEARCH_PRODUCTIVITY_ITEM_RECIPE_MAP (key_segment t) = Some rks"
      "flt (cost_segment t) = None"
      by auto
    from t(1) have "rks \<noteq> []" by (rule table_nonempty)
    with t(2) have "recipe_keys_loop flt (cost_segment t) rks pr = Inl ValueError"
      by (rule recipe_keys_loop_None)
    with True t show ?thesis by (simp add: unpack2_str_split)
  qed
next
  case (Cons x xs)
  from Cons.prems(1) obtain rks v where x:
    "count_list x (CHR ''='') = 1"
    "map_of RESEARCH_PRODUCTIVITY_ITEM_RECIPE_MAP (key_segment x) = Some rks"
    "flt (cost_segment x) = Some v"
    by (auto simp: research_token_ok_def)
  from Cons have "research_loop flt (xs @ t # ys) (fold (\<lambda>k. AList.update k v) rks pr) = Inl ValueError"
    by simp
  with x show ?case by (simp add: unpack2_str_split recipe_keys_loop_Some)
qed

text \<open>
  C4 (as amended). If the key of some research token is not in the fixed table, the
  expansion returns no dict at all: it ends with an exception, and so does \<open>main\<close> when the
  list is its research argument, before any configuration exists. The first token that is
  not well-formed decides the exception: it is the lookup error \<open>KeyError\<close> when that token
  has exactly one \<open>=\<close> and a key that is not in the table, and it is the format error
  \<open>ValueError\<close> of that token when the token does not have exactly one \<open>=\<close> or has a known
  key with a level that \<open>float\<close> rejects, also when a token with an unknown key follows.
\<close>

theorem research_unknown_key_aborts:
  "((\<exists>t \<in> set items. map_of RESEARCH_PRODUCTIVITY_ITEM_RECIPE_MAP (key_segment t) = None) \<longrightarrow>
      (\<exists>e. parse_productivity_research_list flt items = Inl e)) \<and>
   (\<forall>xs t ys.
      items = xs @ t # ys \<and> list_all (research_token_ok flt) xs \<and>
      count_list t (CHR ''='') = 1 \<and>
      map_of RESEARCH_PRODUCTIVITY_ITEM_RECIPE_MAP (key_segment t) = None \<longrightarrow>
      parse_productivity_research_list flt items = Inl KeyError) \<and>
   (\<forall>xs t ys.
      items = xs @ t # ys \<and> list_all (research_token_ok flt) xs \<and>
      (count_list t (CHR ''='') \<noteq> 1 \<or>
       (map_of RESEARCH_PRODUCTIVITY_ITEM_RECIPE_MAP (key_segment t) \<noteq> None \<and>
        flt (cost_segment t) = None)) \<longrightarrow>
      parse_productivity_research_list flt items = Inl ValueError) \<and>
   ((\<exists>t \<in> set items. map_of RESEARCH_PRODUCTIVITY_ITEM_RECIPE_MAP (key_segment t) = None) \<and>
    arg_productivity_research a = Some items \<longrightarrow>
      (\<exists>e. main flt d a = Inl e))"
proof -
  have abort: "\<exists>e. parse_productivity_research_list flt items = Inl e"
    if "\<exists>t \<in> set items. map_of RESEARCH_PRODUCTIVITY_ITEM_RECIPE_MAP (key_segment t) = None"
  proof -
    from that have "\<not> list_all (research_token_ok flt) items"
      by (auto simp: list_all_iff research_token_ok_def)
    from research_loop_bad [OF this] show ?thesis
      by (simp add: parse_productivity_research_list_def)
  qed
  have keyerror: "parse_productivity_research_list flt items = Inl KeyError"
    if "items = xs @ t # ys \<and> list_all (research_token_ok flt) xs \<and>
      count_list t (CHR ''='') = 1 \<and>
      map_of RESEARCH_PRODUCTIVITY_ITEM_RECIPE_MAP (key_segment t) = None" for xs t ys
    using that research_loop_unknown [of flt xs t ys "[]"]
    by (simp add: parse_productivity_research_list_def)
  have valueerror: "parse_productivity_research_list flt items = Inl ValueError"
    if "items = xs @ t # ys \<and> list_all (research_token_ok flt) xs \<and>
      (count_list t (CHR ''='') \<noteq> 1 \<or>
       (map_of RESEARCH_PRODUCTIVITY_ITEM_RECIPE_MAP (key_segment t) \<noteq> None \<and>
        flt (cost_segment t) = None))" for xs t ys
  proof -
    from that have "research_loop flt (xs @ t # ys) [] = Inl ValueError"
      by (intro research_loop_malformed) simp_all
    with that show ?thesis by (simp add: parse_productivity_research_list_def)
  qed
  have in_main: "\<exists>e. main flt d a = Inl e"
    if "(\<exists>t \<in> set items. map_of RESEARCH_PRODUCTIVITY_ITEM_RECIPE_MAP (key_segment t) = None) \<and>
      arg_productivity_research a = Some items"
  proof -
    from that abort obtain e where "parse_productivity_research_list flt items = Inl e" by blast
    moreover from that have "items \<noteq> []" by auto
    ultimately have "main_productivity_research flt a = Inl e"
      using that by (simp add: main_productivity_research_def)
    then show ?thesis by (rule main_research_Inl)
  qed
  from abort keyerror valueerror in_main show ?thesis by blast
qed

theorem research_unknown_key_aborts_witness:
  "map_of RESEARCH_PRODUCTIVITY_ITEM_RECIPE_MAP (key_segment ''unobtainium=0.3'') = None \<and>
   count_list ''unobtainium=0.3'' (CHR ''='') = 1 \<and>
   list_all (research_token_ok dec_float) [''steel-plate=0.5''] \<and>
   parse_productivity_research_list dec_float
     [''steel-plate=0.5'', ''unobtainium=0.3'', ''scrap=2.5''] = Inl KeyError \<and>
   (\<exists>e. main dec_float example_data
          (default_args\<lparr>arg_productivity_research :=
             Some [''steel-plate=0.5'', ''unobtainium=0.3'', ''scrap=2.5'']\<rparr>) = Inl e) \<and>
   map_of RESEARCH_PRODUCTIVITY_ITEM_RECIPE_MAP (key_segment ''scrap=notanumber'') \<noteq> None \<and>
   dec_float (cost_segment ''scrap=notanumber'') = None \<and>
   parse_productivity_research_list dec_float
     [''steel-plate=0.5'', ''scrap=notanumber'', ''unobtainium=0.3''] = Inl ValueError \<and>
   count_list ''steel-plate'' (CHR ''='') \<noteq> 1 \<and>
   parse_productivity_research_list dec_float
     [''steel-plate=0.5'', ''steel-plate'', ''unobtainium=0.3''] = Inl ValueError"
proof -
  let ?items = "[''steel-plate=0.5'', ''unobtainium=0.3'', ''scrap=2.5'']"
  let ?items2 = "[''steel-plate=0.5'', ''scrap=notanumber'', ''unobtainium=0.3'']"
  let ?items3 = "[''steel-plate=0.5'', ''steel-plate'', ''unobtainium=0.3'']"
  let ?a = "default_args\<lparr>arg_productivity_research := Some ?items\<rparr>"
  have seg:
    "key_segment ''steel-plate=0.5'' = ''steel-plate''" "cost_segment ''steel-plate=0.5'' = ''0.5''"
    "key_segment ''unobtainium=0.3'' = ''unobtainium''"
    "key_segment ''scrap=notanumber'' = ''scrap''" "cost_segment ''scrap=notanumber'' = ''notanumber''"
    by (simp_all add: key_segment_def cost_segment_def)
  have u: "map_of RESEARCH_PRODUCTIVITY_ITEM_RECIPE_MAP (key_segment ''unobtainium=0.3'') = None"
    by (simp add: seg RESEARCH_PRODUCTIVITY_ITEM_RECIPE_MAP_def)
  have c: "count_list ''unobtainium=0.3'' (CHR ''='') = 1" by simp
  have ok: "list_all (research_token_ok dec_float) [''steel-plate=0.5'']"
    by (simp add: research_token_ok_def seg dec_float_values RESEARCH_PRODUCTIVITY_ITEM_RECIPE_MAP_def)
  note w = research_unknown_key_aborts [of ?items dec_float ?a example_data]
  from w u c ok have r1: "parse_productivity_research_list dec_float ?items = Inl KeyError"
    by (elim conjE allE [of _ "[''steel-plate=0.5'']"] allE [of _ "''unobtainium=0.3''"]
        allE [of _ "[''scrap=2.5'']"]) simp
  have "arg_productivity_research ?a = Some ?items" by simp
  with w u have r2: "\<exists>e. main dec_float example_data ?a = Inl e" by simp
  have k: "map_of RESEARCH_PRODUCTIVITY_ITEM_RECIPE_MAP (key_segment ''scrap=notanumber'') \<noteq> None"
    by (simp add: seg RESEARCH_PRODUCTIVITY_ITEM_RECIPE_MAP_def)
  have f: "dec_float (cost_segment ''scrap=notanumber'') = None"
    by (simp add: seg dec_float_values)
  note w2 = research_unknown_key_aborts [of ?items2 dec_float ?a example_data]
  then have "?items2 = [''steel-plate=0.5''] @ ''scrap=notanumber'' # [''unobtainium=0.3''] \<and>
      list_all (research_token_ok dec_float) [''steel-plate=0.5''] \<and>
      (count_list ''scrap=notanumber'' (CHR ''='') \<noteq> 1 \<or>
       (map_of RESEARCH_PRODUCTIVITY_ITEM_RECIPE_MAP (key_segment ''scrap=notanumber'') \<noteq> None \<and>
        dec_float (cost_segment ''scrap=notanumber'') = None)) \<longrightarrow>
      parse_productivity_research_list dec_float ?items2 = Inl ValueError"
    by blast
  with ok k f have r3: "parse_productivity_research_list dec_float ?items2 = Inl ValueError"
    by simp
  have n: "count_list ''steel-plate'' (CHR ''='') \<noteq> 1" by simp
  note w3 = research_unknown_key_aborts [of ?items3 dec_float ?a example_data]
  then have "?items3 = [''steel-plate=0.5''] @ ''steel-plate'' # [''unobtainium=0.3''] \<and>
      list_all (research_token_ok dec_float) [''steel-plate=0.5''] \<and>
      (count_list ''steel-plate'' (CHR ''='') \<noteq> 1 \<or>
       (map_of RESEARCH_PRODUCTIVITY_ITEM_RECIPE_MAP (key_segment ''steel-plate'') \<noteq> None \<and>
        dec_float (cost_segment ''steel-plate'') = None)) \<longrightarrow>
      parse_productivity_research_list dec_float ?items3 = Inl ValueError"
    by blast
  with ok n have r4: "parse_productivity_research_list dec_float ?items3 = Inl ValueError"
    by simp
  from u c ok r1 r2 k f r3 n r4 show ?thesis by blast
qed

text \<open>A malformed token before the token with the unknown key: the exception is the
  \<open>ValueError\<close> of the first token, not the lookup error.\<close>

theorem research_unknown_key_aborts_counterexample:
  "map_of RESEARCH_PRODUCTIVITY_ITEM_RECIPE_MAP (key_segment ''unobtainium=0.3'') = None \<and>
   parse_productivity_research_list dec_float [''bad-token'', ''unobtainium=0.3''] = Inl ValueError"
  by (simp add: key_segment_def RESEARCH_PRODUCTIVITY_ITEM_RECIPE_MAP_def
      parse_productivity_research_list_def str_split_def)

lemma map_cost_farming:
  "map cost (concat (map (\<lambda>p. map (\<lambda>r. \<lparr>key = result_name r, quality = q, resource = b, cost = fc\<rparr>) (f p)) ps)) =
     replicate (\<Sum>p\<leftarrow>ps. length (f p)) fc"
  by (induction ps) (simp_all add: replicate_add comp_def map_replicate_const)

lemma map_cost_planet_block:
  "map cost (planet_block d rc fc oc pl) =
     replicate (length (res_offshore (resources pl))) oc @
     replicate (plant_result_count d pl) fc @
     replicate (length (res_resource (resources pl))) rc"
  by (simp add: planet_block_def plant_result_count_def map_cost_farming comp_def
      map_replicate_const)

lemma length_planet_block:
  "length (planet_block d rc fc oc pl) =
     length (res_offshore (resources pl)) + plant_result_count d pl +
     length (res_resource (resources pl))"
proof -
  have "length (planet_block d rc fc oc pl) = length (map cost (planet_block d rc fc oc pl))"
    by simp
  also have "\<dots> = length (res_offshore (resources pl)) + plant_result_count d pl +
     length (res_resource (resources pl))"
    unfolding map_cost_planet_block by simp
  finally show ?thesis .
qed

text \<open>
  C7 (as amended). On a dataset whose planets list only defined plants, the length of the
  result of \<open>setup_inputs\<close> is the sum over the planets of the number of offshore keys, the
  number of plant-result entries of the plants of the planet counted with repetitions, and
  the number of resource keys; and the costs of the result are, planet by planet, the
  offshore cost once per offshore key, then the farming cost once per plant-result entry,
  then the resource cost once per resource key.
\<close>

theorem setup_inputs_length_and_costs:
  "plants_defined d \<Longrightarrow>
   \<exists>out. setup_inputs d rc fc oc = Inr out \<and>
     length out =
       (\<Sum>pl\<leftarrow>data_planets d.
          length (res_offshore (resources pl)) + plant_result_count d pl +
          length (res_resource (resources pl))) \<and>
     map cost out =
       concat (map (\<lambda>pl. replicate (length (res_offshore (resources pl))) oc @
                        replicate (plant_result_count d pl) fc @
                        replicate (length (res_resource (resources pl))) rc)
                 (data_planets d))"
proof -
  assume "plants_defined d"
  then have out: "setup_inputs d rc fc oc =
      Inr (concat (map (planet_block d rc fc oc) (data_planets d)))"
    by (simp add: setup_inputs_eq)
  have len: "length (concat (map (planet_block d rc fc oc) pls)) =
       (\<Sum>pl\<leftarrow>pls.
          length (res_offshore (resources pl)) + plant_result_count d pl +
          length (res_resource (resources pl)))" for pls
    by (induction pls) (simp_all add: length_planet_block)
  have costs: "map cost (concat (map (planet_block d rc fc oc) pls)) =
       concat (map (\<lambda>pl. replicate (length (res_offshore (resources pl))) oc @
                        replicate (plant_result_count d pl) fc @
                        replicate (length (res_resource (resources pl))) rc) pls)" for pls
    by (induction pls) (simp_all add: map_cost_planet_block)
  from out len costs show ?thesis by blast
qed

theorem setup_inputs_length_and_costs_witness:
  "plants_defined example_data \<and>
   (\<exists>out. setup_inputs example_data (1 :: real) 1 (1 / 10) = Inr out \<and>
      length out = 8 \<and>
      map cost out = [1 / 10, 1, 1, 1, 1 / 10, 1, 1, 1])"
proof -
  have h: "plants_defined example_data"
    by (simp add: plants_defined_def example_data_def)
  from setup_inputs_length_and_costs [OF h, of "1 :: real" 1 "1 / 10"] obtain out where
    out: "setup_inputs example_data (1 :: real) 1 (1 / 10) = Inr out" and
    len: "length out =
       (\<Sum>pl\<leftarrow>data_planets example_data.
          length (res_offshore (resources pl)) + plant_result_count example_data pl +
          length (res_resource (resources pl)))" and
    costs: "map cost out =
       concat (map (\<lambda>pl. replicate (length (res_offshore (resources pl))) (1 / 10) @
                        replicate (plant_result_count example_data pl) 1 @
                        replicate (length (res_resource (resources pl))) 1)
                 (data_planets example_data))"
    by blast
  have l: "length out = 8"
    unfolding len by (simp add: example_data_def plant_result_count_def lookup_results_def)
  have c: "map cost out = [1 / 10, 1, 1, 1, 1 / 10, 1, 1, 1]"
    unfolding costs by (simp add: example_data_def plant_result_count_def lookup_results_def)
  from out l c have "\<exists>out. setup_inputs example_data (1 :: real) 1 (1 / 10) = Inr out \<and>
      length out = 8 \<and> map cost out = [1 / 10, 1, 1, 1, 1 / 10, 1, 1, 1]"
    by (intro exI [of _ out] conjI)
  with h show ?thesis by (rule conjI)
qed

text \<open>Two plants of one planet with the same result item, one listing it twice: three
  entries are emitted, and the count of distinct plant results is one (per planet) or
  two (per plant).\<close>

theorem setup_inputs_length_and_costs_counterexample:
  "plants_defined shared_result_data \<and>
   setup_inputs shared_result_data (1 :: real) 1 1 =
     Inr [\<lparr>key = ''wood'', quality = ''normal'', resource = False, cost = 1\<rparr>,
          \<lparr>key = ''wood'', quality = ''normal'', resource = False, cost = 1\<rparr>,
          \<lparr>key = ''wood'', quality = ''normal'', resource = False, cost = 1\<rparr>] \<and>
   spec_length_distinct_per_planet shared_result_data = 1 \<and>
   spec_length_distinct_per_plant shared_result_data = 2"
  by (simp add: plants_defined_def shared_result_data_def setup_inputs_def farming_input_def
      spec_length_distinct_per_planet_def spec_length_distinct_per_plant_def lookup_results_def)

end
